theory Spec2Isabelle
  imports Main "HOL-Library.Word"
begin

section \<open>Kernel thread control: the data model of kthread.c\<close>

text \<open>
  The kernel is a 32-bit one: a pointer and an \<^verbatim>\<open>int\<close> are 32-bit words, and the
  null pointer is the word 0.
\<close>

type_synonym addr = "32 word"

abbreviation NULL :: addr where
  "NULL \<equiv> 0"

text \<open>
  kthread.c takes two macros from \<^verbatim>\<open>config.h\<close>, a header outside this file; they
  are parameters of the model. \<^verbatim>\<open>DEFAULT_STACK_SIZE\<close> is a C
  \<^verbatim>\<open>int\<close> (read with \<open>sint\<close>), \<^verbatim>\<open>PAGE_SHIFT\<close> a shift count.
\<close>

record config =
  DEFAULT_STACK_SIZE :: "32 word"
  PAGE_SHIFT :: nat

text \<open>
  A list link (\<^verbatim>\<open>list_link_t\<close>, \<^verbatim>\<open>list_t\<close>) holds two pointers to other links. The
  links this file handles are embedded in other objects; a pointer to one is modelled by
  naming the object and the field it lives in, which keeps the byte layout out of the
  model: \<open>PThreads p\<close> is \<^verbatim>\<open>&p->p_threads\<close>, \<open>KtPlink t\<close> is \<^verbatim>\<open>&t->kt_plink\<close>,
  \<open>KtQlink t\<close> is \<^verbatim>\<open>&t->kt_qlink\<close>, \<open>TqList q\<close> is the list head of the wait queue
  \<open>q\<close>, and \<open>LNULL\<close> is the null pointer.
\<close>

datatype lref = LNULL | PThreads addr | KtPlink addr | KtQlink addr | TqList addr

record list_link_t =
  l_next :: lref
  l_prev :: lref

text \<open>
  Modelled from the spec: the type \<^verbatim>\<open>context_t\<close> of the execution context is
  declared in a header outside kthread.c. The spec describes it as "saved register
  state, current stack pointer, and a reference to the page table"; kthread.c itself
  names the fields \<open>c_kstack\<close> and \<open>c_kstacksz\<close>.
\<close>

record context_t =
  c_eip :: "32 word"
  c_esp :: "32 word"
  c_ebp :: "32 word"
  c_pdptr :: addr
  c_kstack :: "32 word"
  c_kstacksz :: "32 word"

text \<open>
  Thread states. kthread.c uses \<open>KT_RUN\<close> (running or runnable) and \<open>KT_EXITED\<close>; the
  spec adds the two sleeping states, one of them cancellable. \<open>KT_NO_STATE\<close> stands for
  every other value the field may hold.
\<close>

datatype kt_state_t = KT_NO_STATE | KT_RUN | KT_SLEEP | KT_SLEEP_CANCELLABLE | KT_EXITED

record kthread_t =
  kt_ctx :: context_t
  kt_kstack :: addr
  kt_retval :: addr
  kt_errno :: "32 word"
  kt_proc :: addr
  kt_cancelled :: "32 word"
  kt_wchan :: addr
  kt_state :: kt_state_t
  kt_qlink :: list_link_t
  kt_plink :: list_link_t

text \<open>Of a process, kthread.c reads the page directory and the list of threads.\<close>

record proc_t =
  p_pagedir :: addr
  p_threads :: list_link_t

text \<open>
  The kernel state. Memory is total: every address holds some control block, process or
  queue head, and a block that the object pool has taken back keeps its bytes. The two
  allocators are collaborators outside kthread.c; their state is part of the kernel
  state:
  \<^item> \<open>slab_free\<close> is the pool of free control blocks of \<^verbatim>\<open>kthread_allocator\<close>, the
    next one to hand out first, and \<open>slab_live\<close> the blocks handed out;
  \<^item> \<open>page_free\<close> is the page allocator's supply of free regions (their base
    addresses), and \<open>page_used\<close> the regions handed out, each with the number of pages
    that was requested for it.
  \<open>null_link\<close> is the link cell a null link pointer reads and writes.
\<close>

record kstate =
  curthr :: addr
  curproc :: addr
  kthread_mem :: "addr \<Rightarrow> kthread_t"
  proc_mem :: "addr \<Rightarrow> proc_t"
  tq_list_mem :: "addr \<Rightarrow> list_link_t"
  null_link :: list_link_t
  slab_free :: "addr list"
  slab_live :: "addr set"
  page_free :: "addr list"
  page_used :: "(addr \<times> 32 word) list"

text \<open>
  How a call ends: it returns a value to its caller, or the kernel halts (a failed
  \<^verbatim>\<open>KASSERT\<close> or a call of \<^verbatim>\<open>panic\<close>), or the processor is switched away from the
  calling thread for good. Each carries the kernel state at that moment.
\<close>

datatype halt = AssertFailed | PanicCalled

datatype 'a outcome = Returned 'a kstate | Halted halt kstate | SwitchedAway kstate

subsection \<open>Memory access\<close>

definition kt_upd :: "addr \<Rightarrow> (kthread_t \<Rightarrow> kthread_t) \<Rightarrow> kstate \<Rightarrow> kstate" where
  "kt_upd t f s = s\<lparr>kthread_mem := (kthread_mem s)(t := f (kthread_mem s t))\<rparr>"

definition ctx_upd :: "addr \<Rightarrow> (context_t \<Rightarrow> context_t) \<Rightarrow> kstate \<Rightarrow> kstate" where
  "ctx_upd t f s = kt_upd t (\<lambda>k. k\<lparr>kt_ctx := f (kt_ctx k)\<rparr>) s"

fun rd :: "kstate \<Rightarrow> lref \<Rightarrow> list_link_t" where
  "rd s LNULL = null_link s"
| "rd s (PThreads p) = p_threads (proc_mem s p)"
| "rd s (KtPlink t) = kt_plink (kthread_mem s t)"
| "rd s (KtQlink t) = kt_qlink (kthread_mem s t)"
| "rd s (TqList q) = tq_list_mem s q"

fun wr :: "lref \<Rightarrow> list_link_t \<Rightarrow> kstate \<Rightarrow> kstate" where
  "wr LNULL v s = s\<lparr>null_link := v\<rparr>"
| "wr (PThreads p) v s = s\<lparr>proc_mem := (proc_mem s)(p := (proc_mem s p)\<lparr>p_threads := v\<rparr>)\<rparr>"
| "wr (KtPlink t) v s = kt_upd t (\<lambda>k. k\<lparr>kt_plink := v\<rparr>) s"
| "wr (KtQlink t) v s = kt_upd t (\<lambda>k. k\<lparr>kt_qlink := v\<rparr>) s"
| "wr (TqList q) v s = s\<lparr>tq_list_mem := (tq_list_mem s)(q := v)\<rparr>"

subsection \<open>Collaborators outside kthread.c\<close>

text \<open>
  The list primitives come from \<^verbatim>\<open>util/list.h\<close>, a header outside kthread.c. The
  spec speaks of "raw links inside the control block", of a control block that "starts
  unlinked", of appending to a collection and of removing from it "if still linked";
  kthread.c tests a link for membership by its two pointers being null. The lists are
  circular and doubly linked, with the list head as sentinel.
\<close>

text \<open>
  Modelled from the spec: \<^verbatim>\<open>list_link_init\<close>, missing from kthread.c, leaves a link
  unlinked: both pointers null.
\<close>

definition list_link_init :: "lref \<Rightarrow> kstate \<Rightarrow> kstate" where
  "list_link_init link s = wr link \<lparr>l_next = LNULL, l_prev = LNULL\<rparr> s"

text \<open>
  Modelled from the spec: \<^verbatim>\<open>list_link_is_linked\<close>, missing from kthread.c, tells
  whether a link is "still linked": both pointers are set.
\<close>

definition list_link_is_linked :: "list_link_t \<Rightarrow> bool" where
  "list_link_is_linked link \<longleftrightarrow> l_next link \<noteq> LNULL \<and> l_prev link \<noteq> LNULL"

text \<open>
  Modelled from the spec: \<^verbatim>\<open>list_insert_tail\<close>, missing from kthread.c, "appends" a
  link to a list: it goes between the last link and the head.
\<close>

definition list_insert_tail :: "lref \<Rightarrow> lref \<Rightarrow> kstate \<Rightarrow> kstate" where
  "list_insert_tail list link s =
     (let prev = l_prev (rd s list);
          s1 = wr link \<lparr>l_next = list, l_prev = prev\<rparr> s;
          s2 = wr prev ((rd s1 prev)\<lparr>l_next := link\<rparr>) s1;
          s3 = wr list ((rd s2 list)\<lparr>l_prev := link\<rparr>) s2
      in s3)"

text \<open>
  Modelled from the spec: \<^verbatim>\<open>list_remove\<close>, missing from kthread.c, "removes" a link
  from its list: its two neighbours are joined and the link is left unlinked.
\<close>

definition list_remove :: "lref \<Rightarrow> kstate \<Rightarrow> kstate" where
  "list_remove link s =
     (let s1 = wr (l_prev (rd s link)) ((rd s (l_prev (rd s link)))\<lparr>l_next := l_next (rd s link)\<rparr>) s;
          s2 = wr (l_next (rd s1 link)) ((rd s1 (l_next (rd s1 link)))\<lparr>l_prev := l_prev (rd s1 link)\<rparr>) s1;
          s3 = wr link \<lparr>l_next = LNULL, l_prev = LNULL\<rparr> s2
      in s3)"

text \<open>
  Modelled from the spec: \<^verbatim>\<open>slab_obj_alloc\<close>, missing from kthread.c, takes a block
  from the fixed-size object pool ("TCB Registry"). It hands out a free block or, on
  exhaustion, the null pointer; the block's bytes are whatever memory holds there.
\<close>

definition slab_obj_alloc :: "kstate \<Rightarrow> addr \<times> kstate" where
  "slab_obj_alloc s =
     (case slab_free s of
        [] \<Rightarrow> (NULL, s)
      | a # as \<Rightarrow> (a, s\<lparr>slab_free := as, slab_live := insert a (slab_live s)\<rparr>))"

text \<open>
  Modelled from the spec: \<^verbatim>\<open>slab_obj_free\<close>, missing from kthread.c, returns a block
  to the pool and leaves its bytes alone.
\<close>

definition slab_obj_free :: "addr \<Rightarrow> kstate \<Rightarrow> kstate" where
  "slab_obj_free obj s = s\<lparr>slab_free := obj # slab_free s, slab_live := slab_live s - {obj}\<rparr>"

text \<open>
  Modelled from the spec: \<^verbatim>\<open>page_alloc_n\<close>, missing from kthread.c, asks the page
  allocator for "N contiguous pages". The answer is the base address of a free region,
  recorded with the number of pages requested, or the null pointer when no region is
  free.
\<close>

definition page_alloc_n :: "32 word \<Rightarrow> kstate \<Rightarrow> addr \<times> kstate" where
  "page_alloc_n npages s =
     (case page_free s of
        [] \<Rightarrow> (NULL, s)
      | a # as \<Rightarrow> (a, s\<lparr>page_free := as, page_used := (a, npages) # page_used s\<rparr>))"

text \<open>
  Modelled from the spec: \<^verbatim>\<open>page_free_n\<close>, missing from kthread.c, gives N pages
  back: the record of that region with that page count goes away, and the region
  returns to the supply.
\<close>

definition page_free_n :: "addr \<Rightarrow> 32 word \<Rightarrow> kstate \<Rightarrow> kstate" where
  "page_free_n a npages s =
     s\<lparr>page_free := a # page_free s, page_used := remove1 (a, npages) (page_used s)\<rparr>"

text \<open>
  Modelled from the spec: \<^verbatim>\<open>context_setup\<close>, missing from kthread.c, "primes the
  execution context to resume at \<open>entry(arg1, arg2)\<close> using the new stack and the
  process's page table". The two arguments go onto the new stack, whose contents the
  model does not hold.
\<close>

definition context_setup ::
  "context_t \<Rightarrow> 32 word \<Rightarrow> 32 word \<Rightarrow> addr \<Rightarrow> addr \<Rightarrow> 32 word \<Rightarrow> addr \<Rightarrow> context_t" where
  "context_setup c func arg1 arg2 kstack kstacksz pdptr =
     c\<lparr>c_eip := func, c_esp := kstack + kstacksz, c_ebp := kstack + kstacksz,
       c_pdptr := pdptr, c_kstack := kstack, c_kstacksz := kstacksz\<rparr>"

text \<open>
  Modelled from the spec: \<^verbatim>\<open>sched_cancel\<close> of the scheduler, missing from
  kthread.c. The canceller "sets target's cancellation flag, and asks the scheduler to
  act: if target is currently in a cancellable sleep, the scheduler removes it from its
  wait queue and marks it runnable"; otherwise "no immediate wake occurs". kthread.c
  leaves the flag to this function ("sched_cancel sets cancel flag and checks if in
  cancellable sleep"). Off its wait queue, the thread has no wait channel any more.
\<close>

definition sched_cancel :: "addr \<Rightarrow> kstate \<Rightarrow> kstate" where
  "sched_cancel kthr s =
     (let s1 = kt_upd kthr (\<lambda>k. k\<lparr>kt_cancelled := 1\<rparr>) s
      in if kt_state (kthread_mem s1 kthr) = KT_SLEEP_CANCELLABLE
         then (let s2 = list_remove (KtQlink kthr) s1;
                   s3 = kt_upd kthr (\<lambda>k. k\<lparr>kt_wchan := NULL\<rparr>) s2;
                   s4 = kt_upd kthr (\<lambda>k. k\<lparr>kt_state := KT_RUN\<rparr>) s3
               in s4)
         else s1)"

text \<open>
  Modelled from the spec: \<^verbatim>\<open>proc_thread_exited\<close> of the process layer, missing from
  kthread.c, "performs whatever zombie/cleanup bookkeeping the process needs and triggers the final,
  permanent context switch". The functions of kthread.c that call it take the
  notification as a parameter, so that what is proved of them holds whatever the process
  layer does; this is the instance the spec describes, with no bookkeeping of its own.
\<close>

definition proc_thread_exited :: "addr \<Rightarrow> kstate \<Rightarrow> unit outcome" where
  "proc_thread_exited retval s = SwitchedAway s"

subsection \<open>The stack manager\<close>

text \<open>
  \<^verbatim>\<open>int npages = 1 + (DEFAULT_STACK_SIZE >> PAGE_SHIFT)\<close>: \<^verbatim>\<open>>>\<close> on an \<^verbatim>\<open>int\<close> is
  the arithmetic shift.
\<close>

definition alloc_stack :: "config \<Rightarrow> kstate \<Rightarrow> addr \<times> kstate" where
  "alloc_stack cfg s =
     (let npages = 1 + signed_drop_bit (PAGE_SHIFT cfg) (DEFAULT_STACK_SIZE cfg)
      in page_alloc_n npages s)"

definition free_stack :: "config \<Rightarrow> addr \<Rightarrow> kstate \<Rightarrow> kstate" where
  "free_stack cfg stack s =
     page_free_n stack (1 + signed_drop_bit (PAGE_SHIFT cfg) (DEFAULT_STACK_SIZE cfg)) s"

section \<open>The lifecycle operations of kthread.c\<close>

text \<open>
  Each \<^verbatim>\<open>KASSERT\<close> is a test that halts the kernel with the state of that moment.
  The statements between two tests are applied in the source's order, each to the
  state the previous one left.
\<close>

definition kthread_destroy :: "config \<Rightarrow> addr \<Rightarrow> kstate \<Rightarrow> unit outcome" where
  "kthread_destroy cfg t s =
     (if \<not> (t \<noteq> NULL \<and> kt_kstack (kthread_mem s t) \<noteq> NULL) then Halted AssertFailed s
      else
        let s1 = free_stack cfg (kt_kstack (kthread_mem s t)) s;
            s2 = (if list_link_is_linked (rd s1 (KtPlink t))
                  then list_remove (KtPlink t) s1 else s1);
            s3 = slab_obj_free t s2
        in Returned () s3)"

definition kthread_create ::
  "config \<Rightarrow> addr \<Rightarrow> 32 word \<Rightarrow> 32 word \<Rightarrow> addr \<Rightarrow> kstate \<Rightarrow> addr outcome" where
  "kthread_create cfg p func arg1 arg2 s =
     (if \<not> (NULL \<noteq> p) then Halted AssertFailed s
      else
        case slab_obj_alloc s of (newthread, s1) \<Rightarrow>
        if \<not> (newthread \<noteq> NULL) then Halted AssertFailed s1
        else
          case alloc_stack cfg s1 of (ktstack, s2) \<Rightarrow>
          if \<not> (NULL \<noteq> ktstack) then Halted AssertFailed s2
          else
            let s3 = ctx_upd newthread
                       (\<lambda>c. context_setup c func arg1 arg2 ktstack (DEFAULT_STACK_SIZE cfg)
                               (p_pagedir (proc_mem s2 p))) s2;
                s4 = kt_upd newthread (\<lambda>k. k\<lparr>kt_kstack := ktstack\<rparr>) s3
            in
              if \<not> (kt_kstack (kthread_mem s4 newthread) \<noteq> NULL) then Halted AssertFailed s4
              else
                let s5 = kt_upd newthread (\<lambda>k. k\<lparr>kt_retval := NULL\<rparr>) s4;
                    s6 = kt_upd newthread (\<lambda>k. k\<lparr>kt_errno := 0\<rparr>) s5;
                    s7 = kt_upd newthread (\<lambda>k. k\<lparr>kt_proc := p\<rparr>) s6;
                    s8 = kt_upd newthread (\<lambda>k. k\<lparr>kt_cancelled := 0\<rparr>) s7;
                    s9 = kt_upd newthread (\<lambda>k. k\<lparr>kt_wchan := NULL\<rparr>) s8;
                    s10 = kt_upd newthread (\<lambda>k. k\<lparr>kt_state := KT_RUN\<rparr>) s9;
                    s11 = list_link_init (KtQlink newthread) s10;
                    s12 = list_insert_tail (PThreads p) (KtPlink newthread) s11
                in Returned newthread s12)"

text \<open>
  \<^verbatim>\<open>kthread_exit\<close> works on \<^verbatim>\<open>curthr\<close>. \<open>pte\<close> is the process layer's
  \<^verbatim>\<open>proc_thread_exited\<close>; should it ever return, the \<^verbatim>\<open>panic\<close> behind the call
  halts the kernel.
\<close>

definition kthread_exit ::
  "(addr \<Rightarrow> kstate \<Rightarrow> unit outcome) \<Rightarrow> addr \<Rightarrow> kstate \<Rightarrow> unit outcome" where
  "kthread_exit pte retval s =
     (let s1 = kt_upd (curthr s) (\<lambda>k. k\<lparr>kt_retval := retval\<rparr>) s
      in
        if \<not> (kt_wchan (kthread_mem s1 (curthr s1)) = NULL) then Halted AssertFailed s1
        else if \<not> (l_next (kt_qlink (kthread_mem s1 (curthr s1))) = LNULL
                    \<and> l_prev (kt_qlink (kthread_mem s1 (curthr s1))) = LNULL)
        then Halted AssertFailed s1
        else if \<not> (kt_proc (kthread_mem s1 (curthr s1)) = curproc s1) then Halted AssertFailed s1
        else
          let s2 = kt_upd (curthr s1) (\<lambda>k. k\<lparr>kt_state := KT_EXITED\<rparr>) s1
          in case pte retval s2 of
               Returned u s3 \<Rightarrow> Halted PanicCalled s3
             | Halted h s3 \<Rightarrow> Halted h s3
             | SwitchedAway s3 \<Rightarrow> SwitchedAway s3)"

definition kthread_cancel ::
  "(addr \<Rightarrow> kstate \<Rightarrow> unit outcome) \<Rightarrow> addr \<Rightarrow> addr \<Rightarrow> kstate \<Rightarrow> unit outcome" where
  "kthread_cancel pte kthr retval s =
     (if \<not> (NULL \<noteq> kthr) then Halted AssertFailed s
      else if curthr s = kthr
      then (case kthread_exit pte retval s of
              Returned u s1 \<Rightarrow> Halted PanicCalled s1
            | Halted h s1 \<Rightarrow> Halted h s1
            | SwitchedAway s1 \<Rightarrow> SwitchedAway s1)
      else
        let s1 = kt_upd kthr (\<lambda>k. k\<lparr>kt_retval := retval\<rparr>) s;
            s2 = sched_cancel kthr s1
        in Returned () s2)"

definition kthread_clone :: "config \<Rightarrow> addr \<Rightarrow> kstate \<Rightarrow> addr outcome" where
  "kthread_clone cfg thr s =
     (if \<not> (KT_RUN = kt_state (kthread_mem s thr)) then Halted AssertFailed s
      else
        case slab_obj_alloc s of (newthr, s1) \<Rightarrow>
        if \<not> (newthr \<noteq> NULL) then Halted AssertFailed s1
        else
          case alloc_stack cfg s1 of (contextstack, s2) \<Rightarrow>
          if \<not> (NULL \<noteq> contextstack) then Halted AssertFailed s2
          else
            let s3 = ctx_upd newthr (\<lambda>c. c\<lparr>c_kstack := contextstack\<rparr>) s2;
                s4 = ctx_upd newthr (\<lambda>c. c\<lparr>c_kstacksz := DEFAULT_STACK_SIZE cfg\<rparr>) s3
            in
              case alloc_stack cfg s4 of (kernelstack, s5) \<Rightarrow>
              if \<not> (NULL \<noteq> kernelstack) then Halted AssertFailed s5
              else
                let s6 = kt_upd newthr (\<lambda>k. k\<lparr>kt_kstack := kernelstack\<rparr>) s5;
                    s7 = kt_upd newthr (\<lambda>k. k\<lparr>kt_retval := kt_retval (kthread_mem s6 thr)\<rparr>) s6;
                    s8 = kt_upd newthr (\<lambda>k. k\<lparr>kt_errno := kt_errno (kthread_mem s7 thr)\<rparr>) s7;
                    s9 = kt_upd newthr (\<lambda>k. k\<lparr>kt_proc := NULL\<rparr>) s8;
                    s10 = kt_upd newthr
                            (\<lambda>k. k\<lparr>kt_cancelled := kt_cancelled (kthread_mem s9 thr)\<rparr>) s9;
                    s11 = kt_upd newthr (\<lambda>k. k\<lparr>kt_wchan := kt_wchan (kthread_mem s10 thr)\<rparr>) s10;
                    s12 = kt_upd newthr (\<lambda>k. k\<lparr>kt_state := KT_RUN\<rparr>) s11;
                    s13 = list_link_init (KtQlink newthr) s12;
                    s14 = list_link_init (KtPlink newthr) s13
                in
                  if \<not> (KT_RUN = kt_state (kthread_mem s14 newthr)) then Halted AssertFailed s14
                  else Returned newthr s14)"

section \<open>Reference values and sample states\<close>

text \<open>
  The page count in the spec's words: "\<open>ceil(default_stack_size / page_size) + 1\<close>
  contiguous pages", a page being \<open>2 ^ PAGE_SHIFT\<close> bytes.
\<close>

definition spec_stack_pages :: "config \<Rightarrow> int" where
  "spec_stack_pages cfg =
     (sint (DEFAULT_STACK_SIZE cfg) + 2 ^ PAGE_SHIFT cfg - 1) div 2 ^ PAGE_SHIFT cfg + 1"

text \<open>
  Sample configurations and states for the concrete instances below: a kernel with
  nothing allocated, whose process and queue lists are empty (each head points at
  itself), a stack size of 56 KiB with 4 KiB pages, and one that is not a whole number
  of pages.
\<close>

definition blank_kthread :: kthread_t where
  "blank_kthread =
     \<lparr>kt_ctx = \<lparr>c_eip = 0, c_esp = 0, c_ebp = 0, c_pdptr = NULL, c_kstack = 0, c_kstacksz = 0\<rparr>,
      kt_kstack = NULL, kt_retval = NULL, kt_errno = 0, kt_proc = NULL, kt_cancelled = 0,
      kt_wchan = NULL, kt_state = KT_NO_STATE,
      kt_qlink = \<lparr>l_next = LNULL, l_prev = LNULL\<rparr>,
      kt_plink = \<lparr>l_next = LNULL, l_prev = LNULL\<rparr>\<rparr>"

definition blank_kstate :: kstate where
  "blank_kstate =
     \<lparr>curthr = NULL, curproc = NULL,
      kthread_mem = (\<lambda>a. blank_kthread),
      proc_mem = (\<lambda>a. \<lparr>p_pagedir = NULL, p_threads = \<lparr>l_next = PThreads a, l_prev = PThreads a\<rparr>\<rparr>),
      tq_list_mem = (\<lambda>a. \<lparr>l_next = TqList a, l_prev = TqList a\<rparr>),
      null_link = \<lparr>l_next = LNULL, l_prev = LNULL\<rparr>,
      slab_free = [], slab_live = {}, page_free = [], page_used = []\<rparr>"

definition cfg_56k :: config where
  "cfg_56k = \<lparr>DEFAULT_STACK_SIZE = 57344, PAGE_SHIFT = 12\<rparr>"

definition cfg_unaligned :: config where
  "cfg_unaligned = \<lparr>DEFAULT_STACK_SIZE = 6000, PAGE_SHIFT = 12\<rparr>"

definition demo_runner :: kthread_t where
  "demo_runner =
     \<lparr>kt_ctx = \<lparr>c_eip = 0x1234, c_esp = 0x1E000, c_ebp = 0x1E000, c_pdptr = 0x7000,
                c_kstack = 0x10000, c_kstacksz = 57344\<rparr>,
      kt_kstack = 0x10000, kt_retval = NULL, kt_errno = 0, kt_proc = 0x3000, kt_cancelled = 0,
      kt_wchan = NULL, kt_state = KT_RUN,
      kt_qlink = \<lparr>l_next = LNULL, l_prev = LNULL\<rparr>,
      kt_plink = \<lparr>l_next = KtPlink 0x2100, l_prev = PThreads 0x3000\<rparr>\<rparr>"

definition demo_sleeper :: kthread_t where
  "demo_sleeper =
     \<lparr>kt_ctx = \<lparr>c_eip = 0x5678, c_esp = 0x2D000, c_ebp = 0x2D000, c_pdptr = 0x7000,
                c_kstack = 0x20000, c_kstacksz = 57344\<rparr>,
      kt_kstack = 0x20000, kt_retval = NULL, kt_errno = 0, kt_proc = 0x3000, kt_cancelled = 0,
      kt_wchan = 0x5000, kt_state = KT_SLEEP_CANCELLABLE,
      kt_qlink = \<lparr>l_next = TqList 0x5000, l_prev = TqList 0x5000\<rparr>,
      kt_plink = \<lparr>l_next = PThreads 0x3000, l_prev = KtPlink 0x2000\<rparr>\<rparr>"

definition demo_stale :: kthread_t where
  "demo_stale =
     \<lparr>kt_ctx = \<lparr>c_eip = 0xBAD, c_esp = 0x6D000, c_ebp = 0x6D000, c_pdptr = 0x8000,
                c_kstack = 0x60000, c_kstacksz = 57344\<rparr>,
      kt_kstack = 0x60000, kt_retval = 5, kt_errno = 0, kt_proc = 0x3100, kt_cancelled = 0,
      kt_wchan = NULL, kt_state = KT_EXITED,
      kt_qlink = \<lparr>l_next = LNULL, l_prev = LNULL\<rparr>,
      kt_plink = \<lparr>l_next = LNULL, l_prev = LNULL\<rparr>\<rparr>"

text \<open>
  \<open>demo_kstate\<close>: process \<open>0x3000\<close> owns two threads, the running one at \<open>0x2000\<close>
  (the current thread) and one at \<open>0x2100\<close> in a cancellable sleep on the wait queue
  \<open>0x5000\<close>. The free control block at \<open>0x2200\<close> still holds the bytes of a thread
  that was destroyed earlier.
\<close>

definition demo_kstate :: kstate where
  "demo_kstate =
     \<lparr>curthr = 0x2000, curproc = 0x3000,
      kthread_mem = (\<lambda>a. blank_kthread)
        (0x2000 := demo_runner, 0x2100 := demo_sleeper, 0x2200 := demo_stale),
      proc_mem = (\<lambda>a. \<lparr>p_pagedir = NULL, p_threads = \<lparr>l_next = PThreads a, l_prev = PThreads a\<rparr>\<rparr>)
        (0x3000 := \<lparr>p_pagedir = 0x7000,
                    p_threads = \<lparr>l_next = KtPlink 0x2000, l_prev = KtPlink 0x2100\<rparr>\<rparr>),
      tq_list_mem = (\<lambda>a. \<lparr>l_next = TqList a, l_prev = TqList a\<rparr>)
        (0x5000 := \<lparr>l_next = KtQlink 0x2100, l_prev = KtQlink 0x2100\<rparr>),
      null_link = \<lparr>l_next = LNULL, l_prev = LNULL\<rparr>,
      slab_free = [0x2200, 0x2300], slab_live = {0x2000, 0x2100},
      page_free = [0x30000, 0x40000], page_used = [(0x20000, 15), (0x10000, 15)]\<rparr>"

section \<open>Reading outcomes and lists\<close>

text \<open>The state an outcome carries, and the value it returns to the caller, if any.\<close>

fun state_of :: "'a outcome \<Rightarrow> kstate" where
  "state_of (Returned v s) = s"
| "state_of (Halted h s) = s"
| "state_of (SwitchedAway s) = s"

fun value_of :: "'a outcome \<Rightarrow> 'a option" where
  "value_of (Returned v s) = Some v"
| "value_of (Halted h s) = None"
| "value_of (SwitchedAway s) = None"

text \<open>
  \<open>chain s head cur xs\<close>: following \<open>l_next\<close> from the link \<open>cur\<close> visits the links
  \<open>xs\<close> in order and then arrives at \<open>head\<close>, and every \<open>l_prev\<close> on the way points
  one step back. \<open>thread_list s p ts\<close>: the thread collection of process \<open>p\<close> is a
  well-formed list that holds exactly the control blocks \<open>ts\<close>, in this order.
\<close>

fun chain :: "kstate \<Rightarrow> lref \<Rightarrow> lref \<Rightarrow> lref list \<Rightarrow> bool" where
  "chain s head cur [] \<longleftrightarrow> l_next (rd s cur) = head \<and> l_prev (rd s head) = cur"
| "chain s head cur (x # xs) \<longleftrightarrow>
     l_next (rd s cur) = x \<and> l_prev (rd s x) = cur \<and> chain s head x xs"

definition thread_list :: "kstate \<Rightarrow> addr \<Rightarrow> addr list \<Rightarrow> bool" where
  "thread_list s p ts \<longleftrightarrow>
     chain s (PThreads p) (PThreads p) (map KtPlink ts) \<and> distinct ts"

section \<open>The queue invariant and the operations as steps\<close>

text \<open>
  The invariant of the spec: a thread's queue link is linked exactly when the thread
  sleeps and its wait channel is set, and the wait channel is null unless the thread
  sleeps. It is stated of the live control blocks.
\<close>

definition sleeping :: "kt_state_t \<Rightarrow> bool" where
  "sleeping st \<longleftrightarrow> st = KT_SLEEP \<or> st = KT_SLEEP_CANCELLABLE"

definition queue_inv_thread :: "kthread_t \<Rightarrow> bool" where
  "queue_inv_thread k \<longleftrightarrow>
     (list_link_is_linked (kt_qlink k) \<longleftrightarrow> sleeping (kt_state k) \<and> kt_wchan k \<noteq> NULL)
     \<and> (kt_wchan k \<noteq> NULL \<longrightarrow> sleeping (kt_state k))"

definition queue_inv :: "kstate \<Rightarrow> bool" where
  "queue_inv s \<longleftrightarrow> (\<forall>t \<in> slab_live s. queue_inv_thread (kthread_mem s t))"

text \<open>
  The five operations as one type of steps. \<open>run_op\<close> gives the state a step leaves
  behind when the kernel runs on afterwards (the call returned, or the thread was
  switched away from), and \<open>None\<close> when the kernel halted.
\<close>

datatype kop =
    Create addr "32 word" "32 word" addr
  | Destroy addr
  | Exit addr
  | Cancel addr addr
  | Clone addr

fun completes :: "'a outcome \<Rightarrow> kstate option" where
  "completes (Returned v s) = Some s"
| "completes (SwitchedAway s) = Some s"
| "completes (Halted h s) = None"

fun run_op :: "config \<Rightarrow> (addr \<Rightarrow> kstate \<Rightarrow> unit outcome) \<Rightarrow> kop \<Rightarrow> kstate \<Rightarrow> kstate option" where
  "run_op cfg pte (Create p func arg1 arg2) s = completes (kthread_create cfg p func arg1 arg2 s)"
| "run_op cfg pte (Destroy t) s = completes (kthread_destroy cfg t s)"
| "run_op cfg pte (Exit retval) s = completes (kthread_exit pte retval s)"
| "run_op cfg pte (Cancel kthr retval) s = completes (kthread_cancel pte kthr retval s)"
| "run_op cfg pte (Clone thr) s = completes (kthread_clone cfg thr s)"

text \<open>
  What a step needs of the lists it touches. The thread list that \<open>Create\<close> appends
  to and the one \<open>Destroy\<close> unlinks from must not run through a queue link; the queue
  link that cancellation takes out of its wait queue must be well formed (both pointers
  null, or both set with each neighbour pointing back); and the source of \<open>Clone\<close> is
  a live control block.
\<close>

fun is_qlink :: "lref \<Rightarrow> bool" where
  "is_qlink (KtQlink t) = True"
| "is_qlink r = False"

definition qlink_wf :: "kstate \<Rightarrow> addr \<Rightarrow> bool" where
  "qlink_wf s t \<longleftrightarrow>
     (l_next (rd s (KtQlink t)) = LNULL \<longleftrightarrow> l_prev (rd s (KtQlink t)) = LNULL)
     \<and> (l_next (rd s (KtQlink t)) \<noteq> LNULL \<longrightarrow>
          l_next (rd s (l_prev (rd s (KtQlink t)))) = KtQlink t
          \<and> l_prev (rd s (l_next (rd s (KtQlink t)))) = KtQlink t)"

fun op_wf :: "kstate \<Rightarrow> kop \<Rightarrow> bool" where
  "op_wf s (Create p func arg1 arg2) \<longleftrightarrow> \<not> is_qlink (l_prev (rd s (PThreads p)))"
| "op_wf s (Destroy t) \<longleftrightarrow>
     (list_link_is_linked (rd s (KtPlink t)) \<longrightarrow>
        \<not> is_qlink (l_next (rd s (KtPlink t))) \<and> \<not> is_qlink (l_prev (rd s (KtPlink t))))"
| "op_wf s (Exit retval) \<longleftrightarrow> True"
| "op_wf s (Cancel kthr retval) \<longleftrightarrow>
     (kt_state (kthread_mem s kthr) = KT_SLEEP_CANCELLABLE \<longrightarrow> qlink_wf s kthr)"
| "op_wf s (Clone thr) \<longleftrightarrow> thr \<in> slab_live s"

text \<open>
  The process layer is outside kthread.c: of its notification the invariant's proof
  assumes that it keeps the invariant when it switches away.
\<close>

definition pte_keeps_inv :: "(addr \<Rightarrow> kstate \<Rightarrow> unit outcome) \<Rightarrow> bool" where
  "pte_keeps_inv pte \<longleftrightarrow>
     (\<forall>retval s s'. queue_inv s \<and> pte retval s = SwitchedAway s' \<longrightarrow> queue_inv s')"

section \<open>Memory and list primitives\<close>

lemma rd_wr: "rd (wr r v s) r' = (if r' = r then v else rd s r')"
  by (cases r; cases r') (simp_all add: kt_upd_def)

lemma list_remove_rd_other:
  "r \<noteq> L \<Longrightarrow> r \<noteq> l_prev (rd s L) \<Longrightarrow> r \<noteq> l_next (rd s L) \<Longrightarrow> rd (list_remove L s) r = rd s r"
  by (simp del: rd.simps add: list_remove_def Let_def rd_wr)

lemma list_insert_tail_rd_other:
  "r \<noteq> h \<Longrightarrow> r \<noteq> l_prev (rd s h) \<Longrightarrow> r \<noteq> new \<Longrightarrow> rd (list_insert_tail h new s) r = rd s r"
  by (simp del: rd.simps add: list_insert_tail_def Let_def rd_wr)

lemma wr_fields:
  "curthr (wr r v s) = curthr s"
  "curproc (wr r v s) = curproc s"
  "slab_free (wr r v s) = slab_free s"
  "slab_live (wr r v s) = slab_live s"
  "page_free (wr r v s) = page_free s"
  "page_used (wr r v s) = page_used s"
  by (cases r; simp add: kt_upd_def)+

lemma wr_kthread:
  "kt_ctx (kthread_mem (wr r v s) t) = kt_ctx (kthread_mem s t)"
  "kt_kstack (kthread_mem (wr r v s) t) = kt_kstack (kthread_mem s t)"
  "kt_retval (kthread_mem (wr r v s) t) = kt_retval (kthread_mem s t)"
  "kt_errno (kthread_mem (wr r v s) t) = kt_errno (kthread_mem s t)"
  "kt_proc (kthread_mem (wr r v s) t) = kt_proc (kthread_mem s t)"
  "kt_cancelled (kthread_mem (wr r v s) t) = kt_cancelled (kthread_mem s t)"
  "kt_wchan (kthread_mem (wr r v s) t) = kt_wchan (kthread_mem s t)"
  "kt_state (kthread_mem (wr r v s) t) = kt_state (kthread_mem s t)"
  by (cases r; simp add: kt_upd_def)+


lemma list_remove_kthread:
  "kt_ctx (kthread_mem (list_remove r s) t) = kt_ctx (kthread_mem s t)"
  "kt_kstack (kthread_mem (list_remove r s) t) = kt_kstack (kthread_mem s t)"
  "kt_retval (kthread_mem (list_remove r s) t) = kt_retval (kthread_mem s t)"
  "kt_errno (kthread_mem (list_remove r s) t) = kt_errno (kthread_mem s t)"
  "kt_proc (kthread_mem (list_remove r s) t) = kt_proc (kthread_mem s t)"
  "kt_cancelled (kthread_mem (list_remove r s) t) = kt_cancelled (kthread_mem s t)"
  "kt_wchan (kthread_mem (list_remove r s) t) = kt_wchan (kthread_mem s t)"
  "kt_state (kthread_mem (list_remove r s) t) = kt_state (kthread_mem s t)"
  by (simp_all add: list_remove_def Let_def wr_kthread)

lemma list_remove_fields:
  "curthr (list_remove r s) = curthr s"
  "curproc (list_remove r s) = curproc s"
  "slab_free (list_remove r s) = slab_free s"
  "slab_live (list_remove r s) = slab_live s"
  "page_free (list_remove r s) = page_free s"
  "page_used (list_remove r s) = page_used s"
  by (simp_all add: list_remove_def Let_def wr_fields)

lemma list_remove_self: "rd (list_remove r s) r = \<lparr>l_next = LNULL, l_prev = LNULL\<rparr>"
  by (simp add: list_remove_def Let_def rd_wr)

lemma kt_upd_mem: "kthread_mem (kt_upd t f s) t' = (if t' = t then f (kthread_mem s t) else kthread_mem s t')"
  by (simp add: kt_upd_def)

lemma kt_upd_fields:
  "curthr (kt_upd t f s) = curthr s"
  "curproc (kt_upd t f s) = curproc s"
  "slab_free (kt_upd t f s) = slab_free s"
  "slab_live (kt_upd t f s) = slab_live s"
  "page_free (kt_upd t f s) = page_free s"
  "page_used (kt_upd t f s) = page_used s"
  "proc_mem (kt_upd t f s) = proc_mem s"
  "tq_list_mem (kt_upd t f s) = tq_list_mem s"
  "null_link (kt_upd t f s) = null_link s"
  by (simp_all add: kt_upd_def)

lemma list_insert_tail_kthread:
  "kt_ctx (kthread_mem (list_insert_tail h r s) t) = kt_ctx (kthread_mem s t)"
  "kt_kstack (kthread_mem (list_insert_tail h r s) t) = kt_kstack (kthread_mem s t)"
  "kt_retval (kthread_mem (list_insert_tail h r s) t) = kt_retval (kthread_mem s t)"
  "kt_errno (kthread_mem (list_insert_tail h r s) t) = kt_errno (kthread_mem s t)"
  "kt_proc (kthread_mem (list_insert_tail h r s) t) = kt_proc (kthread_mem s t)"
  "kt_cancelled (kthread_mem (list_insert_tail h r s) t) = kt_cancelled (kthread_mem s t)"
  "kt_wchan (kthread_mem (list_insert_tail h r s) t) = kt_wchan (kthread_mem s t)"
  "kt_state (kthread_mem (list_insert_tail h r s) t) = kt_state (kthread_mem s t)"
  by (simp_all add: list_insert_tail_def Let_def wr_kthread)

lemma list_insert_tail_fields:
  "curthr (list_insert_tail h r s) = curthr s"
  "curproc (list_insert_tail h r s) = curproc s"
  "slab_free (list_insert_tail h r s) = slab_free s"
  "slab_live (list_insert_tail h r s) = slab_live s"
  "page_free (list_insert_tail h r s) = page_free s"
  "page_used (list_insert_tail h r s) = page_used s"
  by (simp_all add: list_insert_tail_def Let_def wr_fields)

lemma list_insert_tail_l_prev:
  "r \<noteq> h \<Longrightarrow> r \<noteq> new \<Longrightarrow> l_prev (rd (list_insert_tail h new s) r) = l_prev (rd s r)"
  by (simp add: list_insert_tail_def Let_def rd_wr)

lemma list_link_init_kthread:
  "kt_ctx (kthread_mem (list_link_init r s) t) = kt_ctx (kthread_mem s t)"
  "kt_kstack (kthread_mem (list_link_init r s) t) = kt_kstack (kthread_mem s t)"
  "kt_retval (kthread_mem (list_link_init r s) t) = kt_retval (kthread_mem s t)"
  "kt_errno (kthread_mem (list_link_init r s) t) = kt_errno (kthread_mem s t)"
  "kt_proc (kthread_mem (list_link_init r s) t) = kt_proc (kthread_mem s t)"
  "kt_cancelled (kthread_mem (list_link_init r s) t) = kt_cancelled (kthread_mem s t)"
  "kt_wchan (kthread_mem (list_link_init r s) t) = kt_wchan (kthread_mem s t)"
  "kt_state (kthread_mem (list_link_init r s) t) = kt_state (kthread_mem s t)"
  by (simp_all add: list_link_init_def wr_kthread)

lemma list_link_init_fields:
  "curthr (list_link_init r s) = curthr s"
  "curproc (list_link_init r s) = curproc s"
  "slab_free (list_link_init r s) = slab_free s"
  "slab_live (list_link_init r s) = slab_live s"
  "page_free (list_link_init r s) = page_free s"
  "page_used (list_link_init r s) = page_used s"
  by (simp_all add: list_link_init_def wr_fields)

lemma rd_kt_upd:
  "kt_qlink (f (kthread_mem s t)) = kt_qlink (kthread_mem s t)
   \<Longrightarrow> kt_plink (f (kthread_mem s t)) = kt_plink (kthread_mem s t)
   \<Longrightarrow> rd (kt_upd t f s) r = rd s r"
  by (cases r) (simp_all add: kt_upd_def)

lemma ctx_upd_mem:
  "kthread_mem (ctx_upd t f s) t' =
     (if t' = t then (kthread_mem s t)\<lparr>kt_ctx := f (kt_ctx (kthread_mem s t))\<rparr> else kthread_mem s t')"
  by (simp add: ctx_upd_def kt_upd_def)

lemma ctx_upd_fields:
  "curthr (ctx_upd t f s) = curthr s"
  "curproc (ctx_upd t f s) = curproc s"
  "slab_free (ctx_upd t f s) = slab_free s"
  "slab_live (ctx_upd t f s) = slab_live s"
  "page_free (ctx_upd t f s) = page_free s"
  "page_used (ctx_upd t f s) = page_used s"
  "proc_mem (ctx_upd t f s) = proc_mem s"
  by (simp_all add: ctx_upd_def kt_upd_def)

subsection \<open>Well-formed lists\<close>

lemma chain_cong:
  "\<forall>r \<in> set (head # cur # xs). rd s' r = rd s r \<Longrightarrow> chain s' head cur xs = chain s head cur xs"
  by (induction xs arbitrary: cur) auto

lemma chain_last: "chain s head cur xs \<Longrightarrow> l_prev (rd s head) = last (cur # xs)"
  by (induction xs arbitrary: cur) auto

lemma chain_snoc:
  assumes nxt: "\<And>r. r \<noteq> prev \<Longrightarrow> r \<noteq> new \<Longrightarrow> l_next (rd s' r) = l_next (rd s r)"
    and prv: "\<And>r. r \<noteq> head \<Longrightarrow> r \<noteq> new \<Longrightarrow> l_prev (rd s' r) = l_prev (rd s r)"
    and tail: "l_next (rd s' prev) = new" "l_prev (rd s' head) = new"
    and new: "rd s' new = \<lparr>l_next = head, l_prev = prev\<rparr>"
  shows "chain s head cur xs \<Longrightarrow> last (cur # xs) = prev \<Longrightarrow> distinct (cur # xs)
           \<Longrightarrow> head \<notin> set xs \<Longrightarrow> new \<notin> set (cur # xs)
           \<Longrightarrow> chain s' head cur (xs @ [new])"
proof (induction xs arbitrary: cur)
  case Nil
  then show ?case using tail new by simp
next
  case (Cons x xs)
  have "last (x # xs) \<in> set (x # xs)" by (rule last_in_set) simp
  with Cons.prems have "cur \<noteq> prev" by auto
  moreover from Cons.prems have "cur \<noteq> new" "x \<noteq> head" "x \<noteq> new" by auto
  moreover have "chain s' head x (xs @ [new])"
    using Cons.prems by (intro Cons.IH) auto
  ultimately show ?case using Cons.prems(1) by (simp add: nxt prv)
qed

lemma list_insert_tail_rd:
  assumes "new \<noteq> list" "new \<noteq> l_prev (rd s list)"
  shows "rd (list_insert_tail list new s) r =
           (if r = list then (rd s list)\<lparr>l_next := (if l_prev (rd s list) = list then new else l_next (rd s list)),
                                        l_prev := new\<rparr>
            else if r = l_prev (rd s list) then (rd s r)\<lparr>l_next := new\<rparr>
            else if r = new then \<lparr>l_next = list, l_prev = l_prev (rd s list)\<rparr>
            else rd s r)"
  using assms by (auto simp: list_insert_tail_def Let_def rd_wr)

lemma chain_insert_tail:
  assumes "chain s head cur xs" "distinct (cur # xs)" "head \<notin> set xs" "new \<notin> set (head # cur # xs)"
  shows "chain (list_insert_tail head new s) head cur (xs @ [new])"
proof -
  have last: "l_prev (rd s head) = last (cur # xs)" using assms(1) by (rule chain_last)
  have "last (cur # xs) \<in> set (cur # xs)" by (rule last_in_set) simp
  then have n: "new \<noteq> head" "new \<noteq> l_prev (rd s head)" using assms(4) last by auto
  show ?thesis
  proof (rule chain_snoc [where prev = "l_prev (rd s head)" and s = s])
    show "rd (list_insert_tail head new s) new = \<lparr>l_next = head, l_prev = l_prev (rd s head)\<rparr>"
      using n by (simp add: list_insert_tail_rd)
    show "l_next (rd (list_insert_tail head new s) (l_prev (rd s head))) = new"
      using n by (simp add: list_insert_tail_rd)
    show "l_prev (rd (list_insert_tail head new s) head) = new"
      using n by (simp add: list_insert_tail_rd)
  qed (use n assms last in \<open>auto simp: list_insert_tail_rd\<close>)
qed

section \<open>The stack manager\<close>

lemma npages_floor:
  assumes "0 \<le> sint (w::32 word)" "0 < n"
  shows "sint (1 + signed_drop_bit n w) = sint w div 2 ^ n + 1"
proof -
  have a: "sint (signed_drop_bit n w) = sint w div 2 ^ n"
    by (simp add: sint_signed_drop_bit_eq drop_bit_eq_div)
  have b: "sint w < 2 ^ 31" using sint_lt [of w] by simp
  have "(2::int) ^ 1 \<le> 2 ^ n" using assms(2) by (intro power_increasing) simp_all
  then have c: "sint w div 2 ^ n \<le> sint w div 2"
    using assms(1) by (intro zdiv_mono2) simp_all
  have d: "0 \<le> sint w div 2 ^ n" using assms(1) by (simp add: pos_imp_zdiv_nonneg_iff)
  have "sint w div 2 < 2 ^ 30" using b by simp
  then have e: "sint w div 2 ^ n + 1 < 2 ^ 31" using c by simp
  have "sint (1 + signed_drop_bit n w) = signed_take_bit 31 (1 + sint w div 2 ^ n)"
    by (simp add: sint_word_ariths a)
  also have "\<dots> = 1 + sint w div 2 ^ n"
    using d e by (intro signed_take_bit_int_eq_self) simp_all
  finally show ?thesis by simp
qed

lemma ceil_aligned:
  assumes "(a::int) mod 2 ^ n = 0"
  shows "(a + 2 ^ n - 1) div 2 ^ n = a div 2 ^ n"
proof -
  obtain k where k: "a = 2 ^ n * k" using assms by auto
  have "(a + 2 ^ n - 1) div 2 ^ n = (2 ^ n - 1 + k * 2 ^ n) div 2 ^ n"
    by (simp add: k algebra_simps)
  also have "\<dots> = (2 ^ n - 1) div 2 ^ n + k"
    by (subst div_mult_self1) simp_all
  also have "(2 ^ n - 1) div 2 ^ n = (0::int)"
    by (intro div_pos_pos_trivial) simp_all
  finally show ?thesis by (simp add: k)
qed

text \<open>
  C9 (as amended). For a non-negative stack size and a positive page shift,
  \<open>alloc_stack\<close> answers with the null pointer and an unchanged state when the page
  allocator has no region left; otherwise it takes the next free region and asks for
  \<open>floor(DEFAULT_STACK_SIZE / page_size) + 1\<close> pages, which is the spec's
  \<open>ceil(DEFAULT_STACK_SIZE / page_size) + 1\<close> when the stack size is a whole number of
  pages; \<open>free_stack\<close> on that stack gives back the region with the same page count.
\<close>

theorem stack_pages_amended:
  assumes size: "0 \<le> sint (DEFAULT_STACK_SIZE cfg)" and shift: "0 < PAGE_SHIFT cfg"
  shows "(page_free s = [] \<longrightarrow> alloc_stack cfg s = (NULL, s))
       \<and> (\<forall>a as. page_free s = a # as \<longrightarrow>
            (\<exists>n. fst (alloc_stack cfg s) = a
                \<and> page_free (snd (alloc_stack cfg s)) = as
                \<and> page_used (snd (alloc_stack cfg s)) = (a, n) # page_used s
                \<and> sint n = sint (DEFAULT_STACK_SIZE cfg) div 2 ^ PAGE_SHIFT cfg + 1
                \<and> (sint (DEFAULT_STACK_SIZE cfg) mod 2 ^ PAGE_SHIFT cfg = 0
                     \<longrightarrow> sint n = spec_stack_pages cfg)
                \<and> page_used (free_stack cfg a (snd (alloc_stack cfg s))) = page_used s))"
proof (intro conjI allI impI)
  assume "page_free s = []"
  then show "alloc_stack cfg s = (NULL, s)"
    by (simp add: alloc_stack_def page_alloc_n_def)
next
  fix a as
  assume pf: "page_free s = a # as"
  let ?n = "1 + signed_drop_bit (PAGE_SHIFT cfg) (DEFAULT_STACK_SIZE cfg)"
  have fl: "sint ?n = sint (DEFAULT_STACK_SIZE cfg) div 2 ^ PAGE_SHIFT cfg + 1"
    using size shift by (rule npages_floor)
  have al: "alloc_stack cfg s = (a, s\<lparr>page_free := as, page_used := (a, ?n) # page_used s\<rparr>)"
    using pf by (simp add: alloc_stack_def page_alloc_n_def)
  show "\<exists>n. fst (alloc_stack cfg s) = a
                \<and> page_free (snd (alloc_stack cfg s)) = as
                \<and> page_used (snd (alloc_stack cfg s)) = (a, n) # page_used s
                \<and> sint n = sint (DEFAULT_STACK_SIZE cfg) div 2 ^ PAGE_SHIFT cfg + 1
                \<and> (sint (DEFAULT_STACK_SIZE cfg) mod 2 ^ PAGE_SHIFT cfg = 0
                     \<longrightarrow> sint n = spec_stack_pages cfg)
                \<and> page_used (free_stack cfg a (snd (alloc_stack cfg s))) = page_used s"
  proof (intro exI [of _ ?n] conjI impI)
    show "sint ?n = sint (DEFAULT_STACK_SIZE cfg) div 2 ^ PAGE_SHIFT cfg + 1" by (rule fl)
    show "sint ?n = spec_stack_pages cfg"
      if "sint (DEFAULT_STACK_SIZE cfg) mod 2 ^ PAGE_SHIFT cfg = 0"
      using that fl by (simp add: spec_stack_pages_def ceil_aligned)
  qed (simp_all add: al free_stack_def page_free_n_def)
qed

theorem stack_pages_amended_witness:
  "fst (alloc_stack cfg_56k (blank_kstate\<lparr>page_free := [0x1000]\<rparr>)) = 0x1000
   \<and> page_used (snd (alloc_stack cfg_56k (blank_kstate\<lparr>page_free := [0x1000]\<rparr>))) = [(0x1000, 15)]
   \<and> spec_stack_pages cfg_56k = 15
   \<and> page_used (free_stack cfg_56k 0x1000
        (snd (alloc_stack cfg_56k (blank_kstate\<lparr>page_free := [0x1000]\<rparr>)))) = []"
  using stack_pages_amended [of cfg_56k "blank_kstate\<lparr>page_free := [0x1000]\<rparr>"]
  by (simp add: cfg_56k_def blank_kstate_def alloc_stack_def page_alloc_n_def
      free_stack_def page_free_n_def spec_stack_pages_def)

text \<open>
  C9 as stated fails for a stack size that is not a whole number of pages: for 6000
  bytes and 4096-byte pages the code asks for 2 pages, the spec's formula gives 3.
\<close>

theorem stack_pages_ceil_counterexample:
  "page_used (snd (alloc_stack cfg_unaligned (blank_kstate\<lparr>page_free := [0x1000]\<rparr>)))
     = [(0x1000, 2)]
   \<and> spec_stack_pages cfg_unaligned = 3"
  by (simp add: cfg_unaligned_def blank_kstate_def alloc_stack_def page_alloc_n_def
      spec_stack_pages_def)

section \<open>Creation\<close>

lemma kthread_create_success:
  assumes "p \<noteq> NULL" "slab_free s = a # as" "a \<noteq> NULL" "page_free s = b # bs" "b \<noteq> NULL"
  shows "kthread_create cfg p func arg1 arg2 s
           = Returned a (list_insert_tail (PThreads p) (KtPlink a)
               (s\<lparr>slab_free := as, slab_live := insert a (slab_live s), page_free := bs,
                  page_used := (b, 1 + signed_drop_bit (PAGE_SHIFT cfg) (DEFAULT_STACK_SIZE cfg))
                                 # page_used s,
                  kthread_mem := (kthread_mem s)
                    (a := (kthread_mem s a)
                       \<lparr>kt_ctx := context_setup (kt_ctx (kthread_mem s a)) func arg1 arg2 b
                                   (DEFAULT_STACK_SIZE cfg) (p_pagedir (proc_mem s p)),
                        kt_kstack := b, kt_retval := NULL, kt_errno := 0, kt_proc := p,
                        kt_cancelled := 0, kt_wchan := NULL, kt_state := KT_RUN,
                        kt_qlink := \<lparr>l_next = LNULL, l_prev = LNULL\<rparr>\<rparr>)\<rparr>))"
  using assms
  apply (simp add: kthread_create_def slab_obj_alloc_def alloc_stack_def page_alloc_n_def Let_def
      kt_upd_mem ctx_upd_mem kt_upd_fields ctx_upd_fields)
  apply (simp add: list_link_init_def kt_upd_def ctx_upd_def)
  done

lemma kthread_create_not_null: "kthread_create cfg p func arg1 arg2 s \<noteq> Returned NULL s'"
  by (simp add: kthread_create_def Let_def split: prod.splits)

lemma kthread_create_no_slab:
  "p \<noteq> NULL \<Longrightarrow> slab_free s = [] \<Longrightarrow> kthread_create cfg p func arg1 arg2 s = Halted AssertFailed s"
  by (simp add: kthread_create_def slab_obj_alloc_def)

lemma kthread_create_no_stack:
  "p \<noteq> NULL \<Longrightarrow> slab_free s = a # as \<Longrightarrow> a \<noteq> NULL \<Longrightarrow> page_free s = []
   \<Longrightarrow> kthread_create cfg p func arg1 arg2 s
         = Halted AssertFailed (s\<lparr>slab_free := as, slab_live := insert a (slab_live s)\<rparr>)"
  by (simp add: kthread_create_def slab_obj_alloc_def alloc_stack_def page_alloc_n_def)

lemma kthread_create_appends:
  assumes tl: "thread_list s p ts" and fresh: "a \<notin> set ts"
    and s11: "\<And>r. r \<noteq> KtQlink a \<Longrightarrow> r \<noteq> KtPlink a \<Longrightarrow> rd s11 r = rd s r"
    and q: "rd s11 (KtQlink a) = \<lparr>l_next = LNULL, l_prev = LNULL\<rparr>"
  shows "thread_list (list_insert_tail (PThreads p) (KtPlink a) s11) p (ts @ [a])
       \<and> rd (list_insert_tail (PThreads p) (KtPlink a) s11) (KtQlink a)
           = \<lparr>l_next = LNULL, l_prev = LNULL\<rparr>"
proof -
  let ?h = "PThreads p" and ?xs = "map KtPlink ts"
  have ch: "chain s ?h ?h ?xs" and d: "distinct ts" using tl by (simp_all add: thread_list_def)
  have "\<forall>r \<in> set (?h # ?h # ?xs). rd s11 r = rd s r" using fresh by (auto simp del: rd.simps intro!: s11)
  then have ch11: "chain s11 ?h ?h ?xs" using ch by (simp only: chain_cong)
  have dx: "distinct (?h # ?xs)" using d by (auto simp: distinct_map inj_on_def)
  have "chain (list_insert_tail ?h (KtPlink a) s11) ?h ?h (?xs @ [KtPlink a])"
    using ch11 dx fresh by (intro chain_insert_tail) auto
  then have 1: "thread_list (list_insert_tail ?h (KtPlink a) s11) p (ts @ [a])"
    using d fresh by (simp add: thread_list_def)
  have "l_prev (rd s11 ?h) = last (?h # ?xs)" using ch11 by (rule chain_last)
  moreover have "last (?h # ?xs) \<in> set (?h # ?xs)" by (rule last_in_set) simp
  ultimately have "l_prev (rd s11 ?h) \<noteq> KtQlink a" "l_prev (rd s11 ?h) \<noteq> KtPlink a"
    using fresh by auto
  then have 2: "rd (list_insert_tail ?h (KtPlink a) s11) (KtQlink a) = rd s11 (KtQlink a)"
    by (simp del: rd.simps add: list_insert_tail_rd)
  show ?thesis using 1 2 q by simp
qed

text \<open>
  C1. For a non-null process \<open>p\<close>, \<open>kthread_create\<close> never returns the null pointer.
  When the control-block pool is exhausted, or the pool has a block but no stack region
  is free, a \<^verbatim>\<open>KASSERT\<close> halts the kernel. When the pool hands out the block \<open>a\<close> and
  the page allocator the region \<open>b\<close>, the call returns \<open>a\<close>, now a live block, in state
  \<open>KT_RUN\<close> with cancellation flag 0, result null, error 0, wait channel null, owner \<open>p\<close>,
  stack \<open>b\<close> and a queue link that is not linked; and when the thread collection of
  \<open>p\<close> was the well-formed list \<open>ts\<close> (not yet holding \<open>a\<close>), it is afterwards the list
  \<open>ts @ [a]\<close>, with both pointers of the new queue link null.
\<close>

theorem kthread_create_spec:
  assumes p: "p \<noteq> NULL"
  shows "(\<forall>s'. kthread_create cfg p func arg1 arg2 s \<noteq> Returned NULL s')
       \<and> (slab_free s = [] \<longrightarrow> kthread_create cfg p func arg1 arg2 s = Halted AssertFailed s)
       \<and> (\<forall>a as. slab_free s = a # as \<and> a \<noteq> NULL \<and> page_free s = []
            \<longrightarrow> (\<exists>s'. kthread_create cfg p func arg1 arg2 s = Halted AssertFailed s'))
       \<and> (\<forall>a as b bs. slab_free s = a # as \<and> a \<noteq> NULL \<and> page_free s = b # bs \<and> b \<noteq> NULL
            \<longrightarrow> (\<exists>s'. kthread_create cfg p func arg1 arg2 s = Returned a s'
                  \<and> a \<in> slab_live s'
                  \<and> kt_state (kthread_mem s' a) = KT_RUN
                  \<and> kt_cancelled (kthread_mem s' a) = 0
                  \<and> kt_retval (kthread_mem s' a) = NULL
                  \<and> kt_errno (kthread_mem s' a) = 0
                  \<and> kt_wchan (kthread_mem s' a) = NULL
                  \<and> kt_proc (kthread_mem s' a) = p
                  \<and> kt_kstack (kthread_mem s' a) = b
                  \<and> \<not> list_link_is_linked (kt_qlink (kthread_mem s' a))
                  \<and> (\<forall>ts. thread_list s p ts \<and> a \<notin> set ts
                       \<longrightarrow> thread_list s' p (ts @ [a])
                         \<and> kt_qlink (kthread_mem s' a) = \<lparr>l_next = LNULL, l_prev = LNULL\<rparr>)))"
proof (intro conjI allI impI)
  fix a as b bs
  assume "slab_free s = a # as \<and> a \<noteq> NULL \<and> page_free s = b # bs \<and> b \<noteq> NULL"
  then have h: "slab_free s = a # as" "a \<noteq> NULL" "page_free s = b # bs" "b \<noteq> NULL" by simp_all
  let ?s11 = "s\<lparr>slab_free := as, slab_live := insert a (slab_live s), page_free := bs,
                  page_used := (b, 1 + signed_drop_bit (PAGE_SHIFT cfg) (DEFAULT_STACK_SIZE cfg))
                                 # page_used s,
                  kthread_mem := (kthread_mem s)
                    (a := (kthread_mem s a)
                       \<lparr>kt_ctx := context_setup (kt_ctx (kthread_mem s a)) func arg1 arg2 b
                                   (DEFAULT_STACK_SIZE cfg) (p_pagedir (proc_mem s p)),
                        kt_kstack := b, kt_retval := NULL, kt_errno := 0, kt_proc := p,
                        kt_cancelled := 0, kt_wchan := NULL, kt_state := KT_RUN,
                        kt_qlink := \<lparr>l_next = LNULL, l_prev = LNULL\<rparr>\<rparr>)\<rparr>"
  let ?s' = "list_insert_tail (PThreads p) (KtPlink a) ?s11"
  have r: "kthread_create cfg p func arg1 arg2 s = Returned a ?s'"
    using p h by (rule kthread_create_success)
  have rd11: "rd ?s11 r = rd s r" if "r \<noteq> KtQlink a" "r \<noteq> KtPlink a" for r
    using that by (cases r) simp_all
  have q11: "rd ?s11 (KtQlink a) = \<lparr>l_next = LNULL, l_prev = LNULL\<rparr>" by simp
  have "l_prev (rd ?s' (KtQlink a)) = l_prev (rd ?s11 (KtQlink a))"
    by (rule list_insert_tail_l_prev) simp_all
  then have lp: "l_prev (kt_qlink (kthread_mem ?s' a)) = LNULL" by simp
  have app: "thread_list ?s' p (ts @ [a])
               \<and> kt_qlink (kthread_mem ?s' a) = \<lparr>l_next = LNULL, l_prev = LNULL\<rparr>"
    if "thread_list s p ts \<and> a \<notin> set ts" for ts
    using kthread_create_appends [of s p ts a ?s11] that rd11 q11 by simp
  show "\<exists>s'. kthread_create cfg p func arg1 arg2 s = Returned a s'
                  \<and> a \<in> slab_live s'
                  \<and> kt_state (kthread_mem s' a) = KT_RUN
                  \<and> kt_cancelled (kthread_mem s' a) = 0
                  \<and> kt_retval (kthread_mem s' a) = NULL
                  \<and> kt_errno (kthread_mem s' a) = 0
                  \<and> kt_wchan (kthread_mem s' a) = NULL
                  \<and> kt_proc (kthread_mem s' a) = p
                  \<and> kt_kstack (kthread_mem s' a) = b
                  \<and> \<not> list_link_is_linked (kt_qlink (kthread_mem s' a))
                  \<and> (\<forall>ts. thread_list s p ts \<and> a \<notin> set ts
                       \<longrightarrow> thread_list s' p (ts @ [a])
                         \<and> kt_qlink (kthread_mem s' a) = \<lparr>l_next = LNULL, l_prev = LNULL\<rparr>)"
  proof (intro exI [of _ ?s'] conjI allI impI)
    show "kthread_create cfg p func arg1 arg2 s = Returned a ?s'" by (rule r)
    show "\<not> list_link_is_linked (kt_qlink (kthread_mem ?s' a))"
      using lp by (simp add: list_link_is_linked_def)
    show "thread_list ?s' p (ts @ [a])" if "thread_list s p ts \<and> a \<notin> set ts" for ts
      using app [OF that] by simp
    show "kt_qlink (kthread_mem ?s' a) = \<lparr>l_next = LNULL, l_prev = LNULL\<rparr>"
      if "thread_list s p ts \<and> a \<notin> set ts" for ts
      using app [OF that] by simp
  qed (simp_all add: list_insert_tail_kthread list_insert_tail_fields)
next
  fix a as
  assume "slab_free s = a # as \<and> a \<noteq> NULL \<and> page_free s = []"
  then show "\<exists>s'. kthread_create cfg p func arg1 arg2 s = Halted AssertFailed s'"
    using p by (auto simp: kthread_create_no_stack)
qed (use p in \<open>simp_all add: kthread_create_not_null kthread_create_no_slab\<close>)

lemma demo_thread_list: "thread_list demo_kstate 0x3000 [0x2000, 0x2100]"
  by (simp add: thread_list_def demo_kstate_def demo_runner_def demo_sleeper_def)

theorem kthread_create_spec_witness:
  "value_of (kthread_create cfg_56k 0x3000 0x1234 1 2 demo_kstate) = Some 0x2200
   \<and> kt_state (kthread_mem (state_of (kthread_create cfg_56k 0x3000 0x1234 1 2 demo_kstate)) 0x2200) = KT_RUN
   \<and> thread_list (state_of (kthread_create cfg_56k 0x3000 0x1234 1 2 demo_kstate)) 0x3000
        [0x2000, 0x2100, 0x2200]"
  using kthread_create_spec [of "0x3000" cfg_56k "0x1234" 1 2 demo_kstate] demo_thread_list
  by (auto simp: demo_kstate_def)

section \<open>Exit and cancellation\<close>

lemma kthread_exit_no_return: "kthread_exit pte retval s \<noteq> Returned u s'"
  by (simp add: kthread_exit_def Let_def split: outcome.splits)

text \<open>
  C2. \<open>kthread_exit\<close> never returns to its caller, whatever the process layer's
  notification does. It first stores the result in the current thread's block; if the
  thread is still on a wait channel, holds a queue link, or does not belong to the
  current process, a \<^verbatim>\<open>KASSERT\<close> halts the kernel in the state where only the result
  has been stored (the state field is still untouched). Otherwise it sets the state to
  \<open>KT_EXITED\<close> and calls the notification with the result in that state: the outcome
  is the notification's, and a notification that returns runs into \<^verbatim>\<open>panic\<close>.
\<close>

theorem kthread_exit_spec:
  fixes pte retval s
  defines "t \<equiv> curthr s"
  defines "s1 \<equiv> s\<lparr>kthread_mem := (kthread_mem s)(t := (kthread_mem s t)\<lparr>kt_retval := retval\<rparr>)\<rparr>"
  defines "s2 \<equiv> s\<lparr>kthread_mem := (kthread_mem s)
                     (t := (kthread_mem s t)\<lparr>kt_retval := retval, kt_state := KT_EXITED\<rparr>)\<rparr>"
  shows "(\<forall>u s'. kthread_exit pte retval s \<noteq> Returned u s')
       \<and> (kt_wchan (kthread_mem s t) \<noteq> NULL \<or> l_next (kt_qlink (kthread_mem s t)) \<noteq> LNULL
            \<or> l_prev (kt_qlink (kthread_mem s t)) \<noteq> LNULL \<or> kt_proc (kthread_mem s t) \<noteq> curproc s
          \<longrightarrow> kthread_exit pte retval s = Halted AssertFailed s1)
       \<and> (kt_wchan (kthread_mem s t) = NULL \<and> l_next (kt_qlink (kthread_mem s t)) = LNULL
            \<and> l_prev (kt_qlink (kthread_mem s t)) = LNULL \<and> kt_proc (kthread_mem s t) = curproc s
          \<longrightarrow> (\<forall>s3. pte retval s2 = SwitchedAway s3 \<longrightarrow> kthread_exit pte retval s = SwitchedAway s3)
            \<and> (\<forall>h s3. pte retval s2 = Halted h s3 \<longrightarrow> kthread_exit pte retval s = Halted h s3)
            \<and> (\<forall>u s3. pte retval s2 = Returned u s3
                  \<longrightarrow> kthread_exit pte retval s = Halted PanicCalled s3))"
  unfolding t_def s1_def s2_def
  by (auto simp: kthread_exit_def kt_upd_def Let_def split: outcome.splits)

theorem kthread_exit_spec_witness:
  "kthread_exit proc_thread_exited 99 demo_kstate
     = SwitchedAway (demo_kstate\<lparr>kthread_mem := (kthread_mem demo_kstate)
         (0x2000 := demo_runner\<lparr>kt_retval := 99, kt_state := KT_EXITED\<rparr>)\<rparr>)"
  using kthread_exit_spec [of proc_thread_exited 99 demo_kstate]
  by (simp add: demo_kstate_def demo_runner_def proc_thread_exited_def)

lemma kthread_exit_halts:
  assumes "kt_wchan (kthread_mem s (curthr s)) \<noteq> NULL
           \<or> l_next (kt_qlink (kthread_mem s (curthr s))) \<noteq> LNULL
           \<or> l_prev (kt_qlink (kthread_mem s (curthr s))) \<noteq> LNULL
           \<or> kt_proc (kthread_mem s (curthr s)) \<noteq> curproc s"
  shows "kthread_exit pte retval s
           = Halted AssertFailed
               (s\<lparr>kthread_mem := (kthread_mem s)
                    (curthr s := (kthread_mem s (curthr s))\<lparr>kt_retval := retval\<rparr>)\<rparr>)"
  using assms by (auto simp: kthread_exit_def kt_upd_def Let_def)

lemma kthread_exit_hands_off:
  assumes "kt_wchan (kthread_mem s (curthr s)) = NULL"
    "l_next (kt_qlink (kthread_mem s (curthr s))) = LNULL"
    "l_prev (kt_qlink (kthread_mem s (curthr s))) = LNULL"
    "kt_proc (kthread_mem s (curthr s)) = curproc s"
  shows "kthread_exit pte retval s
           = (case pte retval
                 (s\<lparr>kthread_mem := (kthread_mem s)
                      (curthr s := (kthread_mem s (curthr s))
                         \<lparr>kt_retval := retval, kt_state := KT_EXITED\<rparr>)\<rparr>) of
                Returned u s3 \<Rightarrow> Halted PanicCalled s3
              | Halted h s3 \<Rightarrow> Halted h s3
              | SwitchedAway s3 \<Rightarrow> SwitchedAway s3)"
  using assms by (simp add: kthread_exit_def kt_upd_def Let_def)

text \<open>
  C3. Cancelling the calling thread (a non-null \<^verbatim>\<open>curthr\<close>) with result \<open>r\<close> has
  exactly the outcome of \<open>kthread_exit\<close> with \<open>r\<close>, and never returns. It takes the
  path of \<open>kthread_exit\<close>: the result is stored in the thread's block first; a failed
  \<^verbatim>\<open>KASSERT\<close> halts the kernel in the state where only the result has been stored;
  otherwise the block holds the result \<open>r\<close> and the state \<open>KT_EXITED\<close> when the process
  layer's notification is called, and the outcome is the notification's, with \<^verbatim>\<open>panic\<close>
  should it return.
\<close>

theorem kthread_cancel_self_is_exit:
  fixes pte retval s
  defines "t \<equiv> curthr s"
  defines "s1 \<equiv> s\<lparr>kthread_mem := (kthread_mem s)(t := (kthread_mem s t)\<lparr>kt_retval := retval\<rparr>)\<rparr>"
  defines "s2 \<equiv> s\<lparr>kthread_mem := (kthread_mem s)
                     (t := (kthread_mem s t)\<lparr>kt_retval := retval, kt_state := KT_EXITED\<rparr>)\<rparr>"
  assumes cur: "curthr s \<noteq> NULL"
  shows "kthread_cancel pte (curthr s) retval s = kthread_exit pte retval s
       \<and> (\<forall>u s'. kthread_cancel pte (curthr s) retval s \<noteq> Returned u s')
       \<and> (kt_wchan (kthread_mem s t) \<noteq> NULL \<or> l_next (kt_qlink (kthread_mem s t)) \<noteq> LNULL
            \<or> l_prev (kt_qlink (kthread_mem s t)) \<noteq> LNULL \<or> kt_proc (kthread_mem s t) \<noteq> curproc s
          \<longrightarrow> kthread_cancel pte (curthr s) retval s = Halted AssertFailed s1)
       \<and> (kt_wchan (kthread_mem s t) = NULL \<and> l_next (kt_qlink (kthread_mem s t)) = LNULL
            \<and> l_prev (kt_qlink (kthread_mem s t)) = LNULL \<and> kt_proc (kthread_mem s t) = curproc s
          \<longrightarrow> kt_retval (kthread_mem s2 t) = retval \<and> kt_state (kthread_mem s2 t) = KT_EXITED
            \<and> (\<forall>s3. pte retval s2 = SwitchedAway s3
                  \<longrightarrow> kthread_cancel pte (curthr s) retval s = SwitchedAway s3)
            \<and> (\<forall>h s3. pte retval s2 = Halted h s3
                  \<longrightarrow> kthread_cancel pte (curthr s) retval s = Halted h s3)
            \<and> (\<forall>u s3. pte retval s2 = Returned u s3
                  \<longrightarrow> kthread_cancel pte (curthr s) retval s = Halted PanicCalled s3))"
proof -
  have nr: "\<forall>u s'. kthread_exit pte retval s \<noteq> Returned u s'"
    by (simp add: kthread_exit_no_return)
  then have eq: "kthread_cancel pte (curthr s) retval s = kthread_exit pte retval s"
    using cur by (cases "kthread_exit pte retval s") (simp_all add: kthread_cancel_def)
  have halts: "kthread_exit pte retval s = Halted AssertFailed s1"
    if "kt_wchan (kthread_mem s t) \<noteq> NULL \<or> l_next (kt_qlink (kthread_mem s t)) \<noteq> LNULL
          \<or> l_prev (kt_qlink (kthread_mem s t)) \<noteq> LNULL \<or> kt_proc (kthread_mem s t) \<noteq> curproc s"
    using that unfolding t_def s1_def by (rule kthread_exit_halts)
  have hands: "kthread_exit pte retval s
                 = (case pte retval s2 of Returned u s3 \<Rightarrow> Halted PanicCalled s3
                    | Halted h s3 \<Rightarrow> Halted h s3 | SwitchedAway s3 \<Rightarrow> SwitchedAway s3)"
    if "kt_wchan (kthread_mem s t) = NULL \<and> l_next (kt_qlink (kthread_mem s t)) = LNULL
          \<and> l_prev (kt_qlink (kthread_mem s t)) = LNULL \<and> kt_proc (kthread_mem s t) = curproc s"
    using that unfolding t_def s2_def by (intro kthread_exit_hands_off) simp_all
  have fields: "kt_retval (kthread_mem s2 t) = retval" "kt_state (kthread_mem s2 t) = KT_EXITED"
    by (simp_all add: s2_def)
  show ?thesis
    using nr halts hands fields by (auto simp: eq)
qed

theorem kthread_cancel_self_is_exit_witness:
  "kthread_cancel proc_thread_exited (curthr demo_kstate) 99 demo_kstate
     = kthread_exit proc_thread_exited 99 demo_kstate
   \<and> kthread_cancel proc_thread_exited (curthr demo_kstate) 99 demo_kstate
     = SwitchedAway (demo_kstate\<lparr>kthread_mem := (kthread_mem demo_kstate)
         (0x2000 := demo_runner\<lparr>kt_retval := 99, kt_state := KT_EXITED\<rparr>)\<rparr>)"
proof -
  have c: "curthr demo_kstate \<noteq> NULL" by (simp add: demo_kstate_def)
  have d: "curthr demo_kstate = 0x2000" "kthread_mem demo_kstate 0x2000 = demo_runner"
    "curproc demo_kstate = 0x3000"
    by (simp_all add: demo_kstate_def)
  have r: "kt_wchan demo_runner = NULL" "l_next (kt_qlink demo_runner) = LNULL"
    "l_prev (kt_qlink demo_runner) = LNULL" "kt_proc demo_runner = 0x3000"
    by (simp_all add: demo_runner_def)
  have p: "proc_thread_exited 99 x = SwitchedAway x" for x
    by (simp add: proc_thread_exited_def)
  show ?thesis
    using kthread_cancel_self_is_exit [OF c, of proc_thread_exited 99] by (auto simp: d r p)
qed

text \<open>
  C4. Cancelling a non-null thread other than the calling one returns to the caller,
  who stays the current thread. The target's result is the given one and its
  cancellation flag is set. A target in a cancellable sleep is taken off its wait queue
  and made runnable; for any other target nothing but the result and the flag changes.
  No thread is moved to \<open>KT_EXITED\<close>, and no other thread changes state.
\<close>

theorem kthread_cancel_other:
  assumes "kthr \<noteq> NULL" "kthr \<noteq> curthr s"
  shows "\<exists>s'. kthread_cancel pte kthr retval s = Returned () s'
            \<and> curthr s' = curthr s
            \<and> kt_retval (kthread_mem s' kthr) = retval
            \<and> kt_cancelled (kthread_mem s' kthr) = 1
            \<and> (kt_state (kthread_mem s kthr) = KT_SLEEP_CANCELLABLE
                 \<longrightarrow> kt_state (kthread_mem s' kthr) = KT_RUN
                   \<and> kt_wchan (kthread_mem s' kthr) = NULL
                   \<and> kt_qlink (kthread_mem s' kthr) = \<lparr>l_next = LNULL, l_prev = LNULL\<rparr>)
            \<and> (kt_state (kthread_mem s kthr) \<noteq> KT_SLEEP_CANCELLABLE
                 \<longrightarrow> s' = s\<lparr>kthread_mem := (kthread_mem s)
                        (kthr := (kthread_mem s kthr)\<lparr>kt_retval := retval, kt_cancelled := 1\<rparr>)\<rparr>)
            \<and> (\<forall>t. kt_state (kthread_mem s' t) = KT_EXITED
                 \<longrightarrow> kt_state (kthread_mem s t) = KT_EXITED)
            \<and> (\<forall>t. t \<noteq> kthr \<longrightarrow> kt_state (kthread_mem s' t) = kt_state (kthread_mem s t))"
proof (cases "kt_state (kthread_mem s kthr) = KT_SLEEP_CANCELLABLE")
  case True
  let ?s1 = "kt_upd kthr (\<lambda>k. k\<lparr>kt_cancelled := 1\<rparr>) (kt_upd kthr (\<lambda>k. k\<lparr>kt_retval := retval\<rparr>) s)"
  let ?s' = "kt_upd kthr (\<lambda>k. k\<lparr>kt_state := KT_RUN\<rparr>)
               (kt_upd kthr (\<lambda>k. k\<lparr>kt_wchan := NULL\<rparr>) (list_remove (KtQlink kthr) ?s1))"
  have r: "kthread_cancel pte kthr retval s = Returned () ?s'"
    using assms True by (simp add: kthread_cancel_def sched_cancel_def Let_def kt_upd_mem)
  have q: "kt_qlink (kthread_mem ?s' kthr) = \<lparr>l_next = LNULL, l_prev = LNULL\<rparr>"
    using list_remove_self [of "KtQlink kthr" ?s1] by (simp add: kt_upd_mem)
  show ?thesis
    unfolding r using True q
    by (auto simp: kt_upd_mem kt_upd_fields list_remove_kthread list_remove_fields)
next
  case False
  then show ?thesis
    using assms by (auto simp: kthread_cancel_def sched_cancel_def Let_def kt_upd_def)
qed


theorem kthread_cancel_other_witness:
  "value_of (kthread_cancel proc_thread_exited 0x2100 7 demo_kstate) = Some ()
   \<and> curthr (state_of (kthread_cancel proc_thread_exited 0x2100 7 demo_kstate)) = 0x2000
   \<and> kt_retval (kthread_mem (state_of (kthread_cancel proc_thread_exited 0x2100 7 demo_kstate)) 0x2100) = 7
   \<and> kt_cancelled (kthread_mem (state_of (kthread_cancel proc_thread_exited 0x2100 7 demo_kstate)) 0x2100) = 1
   \<and> kt_state (kthread_mem (state_of (kthread_cancel proc_thread_exited 0x2100 7 demo_kstate)) 0x2100) = KT_RUN"
proof -
  have a: "(0x2100 :: addr) \<noteq> NULL" "0x2100 \<noteq> curthr demo_kstate"
    "kt_state (kthread_mem demo_kstate 0x2100) = KT_SLEEP_CANCELLABLE"
    by (simp_all add: demo_kstate_def demo_sleeper_def)
  show ?thesis
    using kthread_cancel_other [OF a(1,2), of proc_thread_exited 7] a(3)
    by (auto simp: demo_kstate_def)
qed

section \<open>Cloning and destruction\<close>

lemma kthread_clone_success:
  assumes "kt_state (kthread_mem s thr) = KT_RUN" "slab_free s = a # as" "a \<noteq> NULL"
    "page_free s = b # c # cs" "b \<noteq> NULL" "c \<noteq> NULL"
  shows "kthread_clone cfg thr s
           = Returned a
               (s\<lparr>slab_free := as, slab_live := insert a (slab_live s), page_free := cs,
                  page_used := (c, 1 + signed_drop_bit (PAGE_SHIFT cfg) (DEFAULT_STACK_SIZE cfg))
                             # (b, 1 + signed_drop_bit (PAGE_SHIFT cfg) (DEFAULT_STACK_SIZE cfg))
                             # page_used s,
                  kthread_mem := (kthread_mem s)
                    (a := (kthread_mem s a)
                       \<lparr>kt_ctx := (kt_ctx (kthread_mem s a))
                                    \<lparr>c_kstack := b, c_kstacksz := DEFAULT_STACK_SIZE cfg\<rparr>,
                        kt_kstack := c,
                        kt_retval := kt_retval (kthread_mem s thr),
                        kt_errno := kt_errno (kthread_mem s thr),
                        kt_proc := NULL,
                        kt_cancelled := kt_cancelled (kthread_mem s thr),
                        kt_wchan := kt_wchan (kthread_mem s thr),
                        kt_state := KT_RUN,
                        kt_qlink := \<lparr>l_next = LNULL, l_prev = LNULL\<rparr>,
                        kt_plink := \<lparr>l_next = LNULL, l_prev = LNULL\<rparr>\<rparr>)\<rparr>)"
  using assms
  apply (simp add: kthread_clone_def slab_obj_alloc_def alloc_stack_def page_alloc_n_def Let_def
      kt_upd_mem ctx_upd_mem kt_upd_fields ctx_upd_fields list_link_init_kthread
      list_link_init_fields)
  apply (simp add: list_link_init_def kt_upd_def ctx_upd_def)
  done

lemma kthread_destroy_success:
  assumes "t \<noteq> NULL" "kt_kstack (kthread_mem s t) \<noteq> NULL"
  shows "kthread_destroy cfg t s
           = Returned ()
              (slab_obj_free t
                ((if list_link_is_linked (kt_plink (kthread_mem s t))
                  then list_remove (KtPlink t) else id)
                   (s\<lparr>page_free := kt_kstack (kthread_mem s t) # page_free s,
                      page_used := remove1 (kt_kstack (kthread_mem s t),
                                      1 + signed_drop_bit (PAGE_SHIFT cfg) (DEFAULT_STACK_SIZE cfg))
                                     (page_used s)\<rparr>)))"
  using assms by (simp add: kthread_destroy_def free_stack_def page_free_n_def Let_def)

lemma slab_obj_free_fields:
  "kthread_mem (slab_obj_free t s) = kthread_mem s"
  "page_free (slab_obj_free t s) = page_free s"
  "page_used (slab_obj_free t s) = page_used s"
  "slab_free (slab_obj_free t s) = t # slab_free s"
  "slab_live (slab_obj_free t s) = slab_live s - {t}"
  "curthr (slab_obj_free t s) = curthr s"
  by (simp_all add: slab_obj_free_def)

text \<open>
  C5 (as amended). When the source is in state \<open>KT_RUN\<close> and the allocations succeed,
  \<open>kthread_clone\<close> writes two fields of the new block's context and no other: the stack
  base, bound to the first stack it allocates, and the stack size, set to
  \<^verbatim>\<open>DEFAULT_STACK_SIZE\<close>. Every other field of the context is what the block held
  when the pool handed it out; nothing of the source's context is copied (the rest is
  left to the caller, the fork path).
\<close>

theorem kthread_clone_context:
  assumes "kt_state (kthread_mem s S) = KT_RUN" "slab_free s = a # as" "a \<noteq> NULL"
    "page_free s = b # c # cs" "b \<noteq> NULL" "c \<noteq> NULL"
  shows "value_of (kthread_clone cfg S s) = Some a
       \<and> kt_ctx (kthread_mem (state_of (kthread_clone cfg S s)) a)
           = (kt_ctx (kthread_mem s a))\<lparr>c_kstack := b, c_kstacksz := DEFAULT_STACK_SIZE cfg\<rparr>
       \<and> b \<in> fst ` set (page_used (state_of (kthread_clone cfg S s)))"
proof -
  note cl = kthread_clone_success [OF assms, of cfg]
  have ret: "value_of (kthread_clone cfg S s) = Some a"
    by (simp add: cl)
  have ctx: "kt_ctx (kthread_mem (state_of (kthread_clone cfg S s)) a)
               = (kt_ctx (kthread_mem s a))\<lparr>c_kstack := b, c_kstacksz := DEFAULT_STACK_SIZE cfg\<rparr>"
    by (simp add: cl)
  have used: "b \<in> fst ` set (page_used (state_of (kthread_clone cfg S s)))"
    by (simp add: cl)
  from ret ctx used show ?thesis by (intro conjI)
qed

theorem kthread_clone_context_witness:
  "value_of (kthread_clone cfg_56k 0x2000 demo_kstate) = Some 0x2200
   \<and> kt_ctx (kthread_mem (state_of (kthread_clone cfg_56k 0x2000 demo_kstate)) 0x2200)
       = \<lparr>c_eip = 0xBAD, c_esp = 0x6D000, c_ebp = 0x6D000, c_pdptr = 0x8000,
          c_kstack = 0x30000, c_kstacksz = 57344\<rparr>"
  using kthread_clone_context [of demo_kstate "0x2000" "0x2200" "[0x2300]" "0x30000" "0x40000" "[]" cfg_56k]
  by (simp add: demo_kstate_def demo_runner_def demo_stale_def cfg_56k_def)

text \<open>
  C5 as stated fails: cloning the running thread of \<open>demo_kstate\<close> gives a block whose
  saved instruction pointer and page table are those of the block's earlier use, not the
  source's, and two stacks are allocated, not one.
\<close>

theorem kthread_clone_context_counterexample:
  "value_of (kthread_clone cfg_56k 0x2000 demo_kstate) = Some 0x2200
   \<and> c_eip (kt_ctx (kthread_mem demo_kstate 0x2000)) = 0x1234
   \<and> c_eip (kt_ctx (kthread_mem (state_of (kthread_clone cfg_56k 0x2000 demo_kstate)) 0x2200)) = 0xBAD
   \<and> c_pdptr (kt_ctx (kthread_mem demo_kstate 0x2000)) = 0x7000
   \<and> c_pdptr (kt_ctx (kthread_mem (state_of (kthread_clone cfg_56k 0x2000 demo_kstate)) 0x2200)) = 0x8000
   \<and> page_used (state_of (kthread_clone cfg_56k 0x2000 demo_kstate))
       = [(0x40000, 15), (0x30000, 15), (0x20000, 15), (0x10000, 15)]"
proof -
  have "kthread_clone cfg_56k 0x2000 demo_kstate = Returned 0x2200
     (demo_kstate\<lparr>slab_free := [0x2300], slab_live := insert 0x2200 (slab_live demo_kstate),
        page_free := [],
        page_used := (0x40000, 1 + signed_drop_bit (PAGE_SHIFT cfg_56k) (DEFAULT_STACK_SIZE cfg_56k))
                   # (0x30000, 1 + signed_drop_bit (PAGE_SHIFT cfg_56k) (DEFAULT_STACK_SIZE cfg_56k))
                   # page_used demo_kstate,
        kthread_mem := (kthread_mem demo_kstate)
          (0x2200 := (kthread_mem demo_kstate 0x2200)
             \<lparr>kt_ctx := (kt_ctx (kthread_mem demo_kstate 0x2200))
                          \<lparr>c_kstack := 0x30000, c_kstacksz := DEFAULT_STACK_SIZE cfg_56k\<rparr>,
              kt_kstack := 0x40000,
              kt_retval := kt_retval (kthread_mem demo_kstate 0x2000),
              kt_errno := kt_errno (kthread_mem demo_kstate 0x2000),
              kt_proc := NULL,
              kt_cancelled := kt_cancelled (kthread_mem demo_kstate 0x2000),
              kt_wchan := kt_wchan (kthread_mem demo_kstate 0x2000),
              kt_state := KT_RUN,
              kt_qlink := \<lparr>l_next = LNULL, l_prev = LNULL\<rparr>,
              kt_plink := \<lparr>l_next = LNULL, l_prev = LNULL\<rparr>\<rparr>)\<rparr>)"
    by (rule kthread_clone_success) (simp_all add: demo_kstate_def demo_runner_def)
  then show ?thesis
    by (simp add: demo_kstate_def demo_runner_def demo_stale_def cfg_56k_def)
qed

text \<open>
  C6. When the source \<open>S\<close> is in state \<open>KT_RUN\<close>, is not a free block, its stacks are
  not free regions, and the allocations succeed, \<open>kthread_clone\<close> returns a block other
  than \<open>S\<close> and leaves \<open>S\<close> as it was. The new block has the result, error,
  cancellation flag and wait channel of \<open>S\<close>, stacks different from those of \<open>S\<close>,
  state \<open>KT_RUN\<close>, an unlinked queue link, an unlinked thread-list link and no owner.
\<close>

theorem kthread_clone_fields:
  assumes "kt_state (kthread_mem s S) = KT_RUN" "slab_free s = a # as" "a \<noteq> NULL"
    "page_free s = b # c # cs" "b \<noteq> NULL" "c \<noteq> NULL"
    and src: "S \<notin> set (slab_free s)"
    and stk: "kt_kstack (kthread_mem s S) \<notin> set (page_free s)"
             "c_kstack (kt_ctx (kthread_mem s S)) \<notin> set (page_free s)"
  shows "value_of (kthread_clone cfg S s) = Some a \<and> a \<noteq> S
       \<and> kthread_mem (state_of (kthread_clone cfg S s)) S = kthread_mem s S
       \<and> kt_retval (kthread_mem (state_of (kthread_clone cfg S s)) a) = kt_retval (kthread_mem s S)
       \<and> kt_errno (kthread_mem (state_of (kthread_clone cfg S s)) a) = kt_errno (kthread_mem s S)
       \<and> kt_cancelled (kthread_mem (state_of (kthread_clone cfg S s)) a)
           = kt_cancelled (kthread_mem s S)
       \<and> kt_wchan (kthread_mem (state_of (kthread_clone cfg S s)) a) = kt_wchan (kthread_mem s S)
       \<and> kt_kstack (kthread_mem (state_of (kthread_clone cfg S s)) a)
           \<notin> {kt_kstack (kthread_mem s S), c_kstack (kt_ctx (kthread_mem s S))}
       \<and> c_kstack (kt_ctx (kthread_mem (state_of (kthread_clone cfg S s)) a))
           \<notin> {kt_kstack (kthread_mem s S), c_kstack (kt_ctx (kthread_mem s S))}
       \<and> kt_state (kthread_mem (state_of (kthread_clone cfg S s)) a) = KT_RUN
       \<and> kt_qlink (kthread_mem (state_of (kthread_clone cfg S s)) a)
           = \<lparr>l_next = LNULL, l_prev = LNULL\<rparr>
       \<and> \<not> list_link_is_linked (kt_qlink (kthread_mem (state_of (kthread_clone cfg S s)) a))
       \<and> kt_plink (kthread_mem (state_of (kthread_clone cfg S s)) a)
           = \<lparr>l_next = LNULL, l_prev = LNULL\<rparr>
       \<and> \<not> list_link_is_linked (kt_plink (kthread_mem (state_of (kthread_clone cfg S s)) a))
       \<and> kt_proc (kthread_mem (state_of (kthread_clone cfg S s)) a) = NULL"
proof -
  have "a \<noteq> S" using src assms(2) by auto
  moreover have "b \<noteq> kt_kstack (kthread_mem s S)" "c \<noteq> kt_kstack (kthread_mem s S)"
    "b \<noteq> c_kstack (kt_ctx (kthread_mem s S))" "c \<noteq> c_kstack (kt_ctx (kthread_mem s S))"
    using stk assms(4) by auto
  ultimately show ?thesis
    by (simp add: kthread_clone_success [OF assms(1-6)] list_link_is_linked_def)
qed

lemma demo_clone_pre:
  "kt_state (kthread_mem demo_kstate 0x2000) = KT_RUN"
  "slab_free demo_kstate = [0x2200, 0x2300]" "(0x2200 :: addr) \<noteq> NULL"
  "page_free demo_kstate = [0x30000, 0x40000]" "(0x30000 :: addr) \<noteq> NULL"
  "(0x40000 :: addr) \<noteq> NULL"
  "0x2000 \<notin> set (slab_free demo_kstate)"
  "kt_kstack (kthread_mem demo_kstate 0x2000) \<notin> set (page_free demo_kstate)"
  "c_kstack (kt_ctx (kthread_mem demo_kstate 0x2000)) \<notin> set (page_free demo_kstate)"
  by (simp_all add: demo_kstate_def demo_runner_def)

theorem kthread_clone_fields_witness:
  "value_of (kthread_clone cfg_56k 0x2000 demo_kstate) = Some 0x2200
   \<and> kt_retval (kthread_mem (state_of (kthread_clone cfg_56k 0x2000 demo_kstate)) 0x2200) = NULL
   \<and> kt_kstack (kthread_mem (state_of (kthread_clone cfg_56k 0x2000 demo_kstate)) 0x2200) \<noteq> 0x10000
   \<and> kt_kstack (kthread_mem demo_kstate 0x2000) = 0x10000
   \<and> kt_state (kthread_mem (state_of (kthread_clone cfg_56k 0x2000 demo_kstate)) 0x2200) = KT_RUN
   \<and> kt_proc (kthread_mem (state_of (kthread_clone cfg_56k 0x2000 demo_kstate)) 0x2200) = NULL"
proof -
  have "kt_retval (kthread_mem demo_kstate 0x2000) = NULL"
    "kt_kstack (kthread_mem demo_kstate 0x2000) = 0x10000"
    by (simp_all add: demo_kstate_def demo_runner_def)
  then show ?thesis
    using kthread_clone_fields [OF demo_clone_pre, of cfg_56k] by simp
qed

lemma kthread_destroy_halts:
  "t = NULL \<or> kt_kstack (kthread_mem s t) = NULL \<Longrightarrow> kthread_destroy cfg t s = Halted AssertFailed s"
  by (auto simp: kthread_destroy_def)

lemma kthread_destroy_frame:
  assumes "t \<noteq> NULL" "kt_kstack (kthread_mem s t) \<noteq> NULL"
  shows "value_of (kthread_destroy cfg t s) = Some ()"
    "page_free (state_of (kthread_destroy cfg t s)) = kt_kstack (kthread_mem s t) # page_free s"
    "page_used (state_of (kthread_destroy cfg t s))
       = remove1 (kt_kstack (kthread_mem s t),
                  1 + signed_drop_bit (PAGE_SHIFT cfg) (DEFAULT_STACK_SIZE cfg)) (page_used s)"
    "slab_free (state_of (kthread_destroy cfg t s)) = t # slab_free s"
    "slab_live (state_of (kthread_destroy cfg t s)) = slab_live s - {t}"
    "kt_ctx (kthread_mem (state_of (kthread_destroy cfg t s)) t') = kt_ctx (kthread_mem s t')"
    "kt_kstack (kthread_mem (state_of (kthread_destroy cfg t s)) t') = kt_kstack (kthread_mem s t')"
    "kt_retval (kthread_mem (state_of (kthread_destroy cfg t s)) t') = kt_retval (kthread_mem s t')"
    "kt_errno (kthread_mem (state_of (kthread_destroy cfg t s)) t') = kt_errno (kthread_mem s t')"
    "kt_proc (kthread_mem (state_of (kthread_destroy cfg t s)) t') = kt_proc (kthread_mem s t')"
    "kt_cancelled (kthread_mem (state_of (kthread_destroy cfg t s)) t')
       = kt_cancelled (kthread_mem s t')"
    "kt_wchan (kthread_mem (state_of (kthread_destroy cfg t s)) t') = kt_wchan (kthread_mem s t')"
    "kt_state (kthread_mem (state_of (kthread_destroy cfg t s)) t') = kt_state (kthread_mem s t')"
  by (simp_all add: kthread_destroy_success [OF assms] slab_obj_free_fields
      list_remove_fields list_remove_kthread)

text \<open>
  C7 (as amended). The assertion of \<open>kthread_destroy\<close> tests that the control block
  and its stack pointer are non-null, and nothing else: it halts the kernel exactly in
  these two cases and tests nothing of the thread's state. Destruction leaves the stack
  pointer in the block, so a second destruction of the same block passes the assertion
  again and hands the same stack to the page allocator a second time.
\<close>

theorem kthread_destroy_assertion:
  "(t = NULL \<or> kt_kstack (kthread_mem s t) = NULL
      \<longrightarrow> kthread_destroy cfg t s = Halted AssertFailed s)
   \<and> (t \<noteq> NULL \<and> kt_kstack (kthread_mem s t) \<noteq> NULL
      \<longrightarrow> value_of (kthread_destroy cfg t s) = Some ()
        \<and> kt_kstack (kthread_mem (state_of (kthread_destroy cfg t s)) t)
            = kt_kstack (kthread_mem s t)
        \<and> value_of (kthread_destroy cfg t (state_of (kthread_destroy cfg t s))) = Some ()
        \<and> page_free (state_of (kthread_destroy cfg t (state_of (kthread_destroy cfg t s))))
            = kt_kstack (kthread_mem s t) # kt_kstack (kthread_mem s t) # page_free s)"
proof (intro conjI impI)
  assume a: "t \<noteq> NULL \<and> kt_kstack (kthread_mem s t) \<noteq> NULL"
  let ?s' = "state_of (kthread_destroy cfg t s)"
  have k: "kt_kstack (kthread_mem ?s' t) = kt_kstack (kthread_mem s t)"
    using a by (simp add: kthread_destroy_frame)
  then have b: "t \<noteq> NULL" "kt_kstack (kthread_mem ?s' t) \<noteq> NULL" using a by simp_all
  show "value_of (kthread_destroy cfg t s) = Some ()" using a by (simp add: kthread_destroy_frame)
  show "kt_kstack (kthread_mem ?s' t) = kt_kstack (kthread_mem s t)" by (rule k)
  show "value_of (kthread_destroy cfg t ?s') = Some ()" by (rule kthread_destroy_frame(1) [OF b])
  show "page_free (state_of (kthread_destroy cfg t ?s'))
          = kt_kstack (kthread_mem s t) # kt_kstack (kthread_mem s t) # page_free s"
    using a by (simp add: kthread_destroy_frame(2) [OF b] k kthread_destroy_frame)
qed (rule kthread_destroy_halts)

lemma demo_destroy_pre:
  "(0x2000 :: addr) \<noteq> NULL" "kt_kstack (kthread_mem demo_kstate 0x2000) \<noteq> NULL"
  by (simp_all add: demo_kstate_def demo_runner_def)

theorem kthread_destroy_assertion_witness:
  "value_of (kthread_destroy cfg_56k 0x2000 demo_kstate) = Some ()
   \<and> kt_kstack (kthread_mem (state_of (kthread_destroy cfg_56k 0x2000 demo_kstate)) 0x2000) = 0x10000
   \<and> value_of (kthread_destroy cfg_56k 0x2000
        (state_of (kthread_destroy cfg_56k 0x2000 demo_kstate))) = Some ()"
proof -
  have "kt_kstack (kthread_mem demo_kstate 0x2000) = 0x10000"
    by (simp add: demo_kstate_def demo_runner_def)
  then show ?thesis
    using kthread_destroy_assertion [of "0x2000" demo_kstate cfg_56k] by simp
qed

text \<open>
  C7 as stated fails: in \<open>demo_kstate\<close> the current thread, in state \<open>KT_RUN\<close>, is
  destroyed without complaint, and so it is a second time; its stack is then twice in
  the page allocator's supply.
\<close>

theorem kthread_destroy_twice_counterexample:
  "kt_state (kthread_mem demo_kstate 0x2000) = KT_RUN
   \<and> curthr demo_kstate = 0x2000
   \<and> value_of (kthread_destroy cfg_56k 0x2000 demo_kstate) = Some ()
   \<and> value_of (kthread_destroy cfg_56k 0x2000
        (state_of (kthread_destroy cfg_56k 0x2000 demo_kstate))) = Some ()
   \<and> page_free (state_of (kthread_destroy cfg_56k 0x2000
        (state_of (kthread_destroy cfg_56k 0x2000 demo_kstate))))
       = [0x10000, 0x10000, 0x30000, 0x40000]"
proof -
  let ?s' = "state_of (kthread_destroy cfg_56k 0x2000 demo_kstate)"
  have k: "kt_kstack (kthread_mem demo_kstate 0x2000) = 0x10000"
    and d: "kt_state (kthread_mem demo_kstate 0x2000) = KT_RUN" "curthr demo_kstate = 0x2000"
        "page_free demo_kstate = [0x30000, 0x40000]"
    by (simp_all add: demo_kstate_def demo_runner_def)
  have k': "kt_kstack (kthread_mem ?s' 0x2000) = 0x10000"
    by (simp add: kthread_destroy_frame [OF demo_destroy_pre] k)
  then have b: "(0x2000 :: addr) \<noteq> NULL" "kt_kstack (kthread_mem ?s' 0x2000) \<noteq> NULL"
    by simp_all
  show ?thesis
    by (simp add: d k k' kthread_destroy_frame(1,2) [OF demo_destroy_pre]
        kthread_destroy_frame(1,2) [OF b])
qed






section \<open>The queue invariant\<close>

lemma list_remove_linked:
  assumes L: "L \<noteq> LNULL"
    and nb: "l_next (rd s L) = LNULL \<longleftrightarrow> l_prev (rd s L) = LNULL"
    and bk: "l_next (rd s L) \<noteq> LNULL \<longrightarrow>
           l_next (rd s (l_prev (rd s L))) = L \<and> l_prev (rd s (l_next (rd s L))) = L"
    and r: "r \<noteq> L" "r \<noteq> LNULL"
  shows "list_link_is_linked (rd (list_remove L s) r) = list_link_is_linked (rd s r)"
proof (cases "l_next (rd s L) = LNULL")
  case True
  then have "l_prev (rd s L) = LNULL" using nb by simp
  then have "rd (list_remove L s) r = rd s r"
    using True r by (intro list_remove_rd_other) simp_all
  then show ?thesis by simp
next
  case False
  define n where "n = l_next (rd s L)"
  define p where "p = l_prev (rd s L)"
  have np: "n \<noteq> LNULL" "p \<noteq> LNULL" using False nb by (simp_all add: n_def p_def)
  have bp: "l_next (rd s p) = L" "l_prev (rd s n) = L" using bk False by (simp_all add: n_def p_def)
  have sel: "l_next (rd (list_remove L s) r) = (if r = p then n else l_next (rd s r))"
            "l_prev (rd (list_remove L s) r) = (if r = n then p else l_prev (rd s r))"
    using r by (simp_all del: rd.simps add: list_remove_def Let_def rd_wr n_def p_def)
  show ?thesis
    using np bp L by (auto simp del: rd.simps simp: sel list_link_is_linked_def)
qed

lemma is_qlink_neq: "\<not> is_qlink r \<Longrightarrow> KtQlink x \<noteq> r"
  by (cases r) simp_all

lemma kthread_create_halts:
  assumes "p = NULL \<or> slab_free s = [] \<or> hd (slab_free s) = NULL
           \<or> page_free s = [] \<or> hd (page_free s) = NULL"
  shows "\<exists>s'. kthread_create cfg p func arg1 arg2 s = Halted AssertFailed s'"
proof (cases "p = NULL")
  case True
  then show ?thesis by (simp add: kthread_create_def)
next
  case p: False
  show ?thesis
  proof (cases "slab_free s")
    case Nil
    then show ?thesis using p by (simp add: kthread_create_def slab_obj_alloc_def)
  next
    case (Cons a as)
    show ?thesis
    proof (cases "a = NULL")
      case True
      then show ?thesis using p Cons by (simp add: kthread_create_def slab_obj_alloc_def)
    next
      case a: False
      show ?thesis
      proof (cases "page_free s")
        case Nil
        then show ?thesis using p Cons a by (simp add: kthread_create_no_stack)
      next
        case pf: (Cons b bs)
        then have "b = NULL" using assms p Cons a by simp
        then show ?thesis
          using p Cons a pf
          by (simp add: kthread_create_def slab_obj_alloc_def alloc_stack_def page_alloc_n_def)
      qed
    qed
  qed
qed

lemma kthread_create_Returned:
  assumes "kthread_create cfg p func arg1 arg2 s = Returned t s'"
  shows "p \<noteq> NULL \<and> t \<noteq> NULL \<and> (\<exists>as. slab_free s = t # as)
       \<and> (\<exists>b bs. page_free s = b # bs \<and> b \<noteq> NULL)"
proof -
  have n: "\<not> (p = NULL \<or> slab_free s = [] \<or> hd (slab_free s) = NULL
           \<or> page_free s = [] \<or> hd (page_free s) = NULL)"
    using kthread_create_halts [of p s cfg func arg1 arg2] assms by auto
  then obtain a as b bs where l: "slab_free s = a # as" "page_free s = b # bs"
    by (cases "slab_free s"; cases "page_free s") auto
  with n have nn: "p \<noteq> NULL" "a \<noteq> NULL" "b \<noteq> NULL" by simp_all
  have "t = a"
    using assms kthread_create_success [OF nn(1) l(1) nn(2) l(2) nn(3), of cfg func arg1 arg2]
    by simp
  then show ?thesis using l nn by simp
qed

lemma kthread_clone_halts:
  assumes "kt_state (kthread_mem s thr) \<noteq> KT_RUN \<or> slab_free s = [] \<or> hd (slab_free s) = NULL
           \<or> page_free s = [] \<or> hd (page_free s) = NULL
           \<or> tl (page_free s) = [] \<or> hd (tl (page_free s)) = NULL"
  shows "\<exists>s'. kthread_clone cfg thr s = Halted AssertFailed s'"
proof (cases "kt_state (kthread_mem s thr) \<noteq> KT_RUN")
  case True
  then show ?thesis by (auto simp: kthread_clone_def)
next
  case False
  then have st: "kt_state (kthread_mem s thr) = KT_RUN" by simp
  show ?thesis
  proof (cases "slab_free s")
    case Nil
    then show ?thesis using st by (simp add: kthread_clone_def slab_obj_alloc_def)
  next
    case (Cons a as)
    show ?thesis
    proof (cases "a = NULL")
      case True
      then show ?thesis using st Cons by (simp add: kthread_clone_def slab_obj_alloc_def)
    next
      case a: False
      show ?thesis
      proof (cases "page_free s")
        case Nil
        then show ?thesis
          using st Cons a
          by (simp add: kthread_clone_def slab_obj_alloc_def alloc_stack_def page_alloc_n_def)
      next
        case pf: (Cons b bs)
        show ?thesis
        proof (cases "b = NULL")
          case True
          then show ?thesis
            using st Cons a pf
            by (simp add: kthread_clone_def slab_obj_alloc_def alloc_stack_def page_alloc_n_def)
        next
          case b: False
          show ?thesis
          proof (cases bs)
            case Nil
            then show ?thesis
              using st Cons a pf b
              by (simp add: kthread_clone_def slab_obj_alloc_def alloc_stack_def
                  page_alloc_n_def ctx_upd_fields Let_def)
          next
            case pf2: (Cons c cs)
            then have "c = NULL" using assms st Cons a pf b by simp
            then show ?thesis
              using st Cons a pf b pf2
              by (simp add: kthread_clone_def slab_obj_alloc_def alloc_stack_def
                  page_alloc_n_def ctx_upd_fields Let_def)
          qed
        qed
      qed
    qed
  qed
qed

lemma kthread_clone_Returned:
  assumes "kthread_clone cfg thr s = Returned t s'"
  shows "kt_state (kthread_mem s thr) = KT_RUN \<and> t \<noteq> NULL \<and> (\<exists>as. slab_free s = t # as)
       \<and> (\<exists>b c cs. page_free s = b # c # cs \<and> b \<noteq> NULL \<and> c \<noteq> NULL)"
proof -
  have n: "\<not> (kt_state (kthread_mem s thr) \<noteq> KT_RUN \<or> slab_free s = [] \<or> hd (slab_free s) = NULL
           \<or> page_free s = [] \<or> hd (page_free s) = NULL
           \<or> tl (page_free s) = [] \<or> hd (tl (page_free s)) = NULL)"
    using kthread_clone_halts [of s thr cfg] assms by auto
  then obtain a as b bs where l: "slab_free s = a # as" "page_free s = b # bs"
    by (cases "slab_free s"; cases "page_free s") auto
  with n obtain c cs where l2: "bs = c # cs" by (cases bs) auto
  from n l l2 have nn: "kt_state (kthread_mem s thr) = KT_RUN" "a \<noteq> NULL" "b \<noteq> NULL" "c \<noteq> NULL"
    by simp_all
  have pf: "page_free s = b # c # cs" using l l2 by simp
  have "t = a"
    using assms kthread_clone_success [OF nn(1) l(1) nn(2) pf nn(3,4), of cfg] by simp
  then show ?thesis using l(1) pf nn by blast
qed

lemma queue_inv_create:
  assumes inv: "queue_inv s" and wf: "\<not> is_qlink (l_prev (rd s (PThreads p)))"
    and ret: "kthread_create cfg p func arg1 arg2 s = Returned t s'"
  shows "queue_inv s'"
proof -
  from kthread_create_Returned [OF ret] obtain as b bs where
    h: "p \<noteq> NULL" "t \<noteq> NULL" "slab_free s = t # as" "page_free s = b # bs" "b \<noteq> NULL"
    by blast
  let ?s11 = "s\<lparr>slab_free := as, slab_live := insert t (slab_live s), page_free := bs,
                  page_used := (b, 1 + signed_drop_bit (PAGE_SHIFT cfg) (DEFAULT_STACK_SIZE cfg))
                                 # page_used s,
                  kthread_mem := (kthread_mem s)
                    (t := (kthread_mem s t)
                       \<lparr>kt_ctx := context_setup (kt_ctx (kthread_mem s t)) func arg1 arg2 b
                                   (DEFAULT_STACK_SIZE cfg) (p_pagedir (proc_mem s p)),
                        kt_kstack := b, kt_retval := NULL, kt_errno := 0, kt_proc := p,
                        kt_cancelled := 0, kt_wchan := NULL, kt_state := KT_RUN,
                        kt_qlink := \<lparr>l_next = LNULL, l_prev = LNULL\<rparr>\<rparr>)\<rparr>"
  have s': "s' = list_insert_tail (PThreads p) (KtPlink t) ?s11"
    using ret kthread_create_success [OF h(1) h(3) h(2) h(4) h(5), of cfg func arg1 arg2] by simp
  have prev: "l_prev (rd ?s11 (PThreads p)) = l_prev (rd s (PThreads p))" by simp
  have q: "kt_qlink (kthread_mem s' x) = kt_qlink (kthread_mem ?s11 x)" for x
  proof -
    have "rd s' (KtQlink x) = rd ?s11 (KtQlink x)"
      unfolding s' using wf prev
      by (intro list_insert_tail_rd_other) (simp_all del: rd.simps add: is_qlink_neq)
    then show ?thesis by simp
  qed
  show ?thesis
    unfolding queue_inv_def
  proof
    fix x assume "x \<in> slab_live s'"
    then have x: "x = t \<or> x \<in> slab_live s" by (simp add: s' list_insert_tail_fields)
    show "queue_inv_thread (kthread_mem s' x)"
    proof (cases "x = t")
      case True
      then show ?thesis
        by (simp add: queue_inv_thread_def q) (simp add: s' list_insert_tail_kthread
            list_link_is_linked_def sleeping_def)
    next
      case False
      then have "queue_inv_thread (kthread_mem s x)" using x inv by (simp add: queue_inv_def)
      then show ?thesis
        using False
        by (simp add: queue_inv_thread_def q) (simp add: s' list_insert_tail_kthread)
    qed
  qed
qed

lemma queue_inv_clone:
  assumes inv: "queue_inv s" and live: "thr \<in> slab_live s"
    and ret: "kthread_clone cfg thr s = Returned t s'"
  shows "queue_inv s'"
proof -
  from kthread_clone_Returned [OF ret] obtain as b c cs where
    h: "kt_state (kthread_mem s thr) = KT_RUN" "slab_free s = t # as" "t \<noteq> NULL"
       "page_free s = b # c # cs" "b \<noteq> NULL" "c \<noteq> NULL"
    by blast
  note cl = kthread_clone_success [OF h, of cfg]
  have "queue_inv_thread (kthread_mem s thr)" using inv live by (simp add: queue_inv_def)
  then have w: "kt_wchan (kthread_mem s thr) = NULL"
    using h(1) by (auto simp: queue_inv_thread_def sleeping_def)
  have s': "s' = state_of (kthread_clone cfg thr s)" using ret by simp
  show ?thesis
    unfolding queue_inv_def
  proof
    fix x assume "x \<in> slab_live s'"
    then have x: "x = t \<or> x \<in> slab_live s" by (simp add: s' cl)
    show "queue_inv_thread (kthread_mem s' x)"
    proof (cases "x = t")
      case True
      then show ?thesis
        by (simp add: s' cl queue_inv_thread_def list_link_is_linked_def sleeping_def w)
    next
      case False
      then have "queue_inv_thread (kthread_mem s x)" using x inv by (simp add: queue_inv_def)
      then show ?thesis using False by (simp add: s' cl)
    qed
  qed
qed

lemma queue_inv_destroy:
  assumes inv: "queue_inv s"
    and wf: "list_link_is_linked (rd s (KtPlink t)) \<longrightarrow>
               \<not> is_qlink (l_next (rd s (KtPlink t))) \<and> \<not> is_qlink (l_prev (rd s (KtPlink t)))"
    and ret: "kthread_destroy cfg t s = Returned u s'"
  shows "queue_inv s'"
proof -
  have pre: "t \<noteq> NULL" "kt_kstack (kthread_mem s t) \<noteq> NULL"
    using ret kthread_destroy_halts [of t s cfg] by auto
  let ?s1 = "s\<lparr>page_free := kt_kstack (kthread_mem s t) # page_free s,
               page_used := remove1 (kt_kstack (kthread_mem s t),
                               1 + signed_drop_bit (PAGE_SHIFT cfg) (DEFAULT_STACK_SIZE cfg))
                              (page_used s)\<rparr>"
  have rd1: "rd ?s1 r = rd s r" for r by (cases r) simp_all
  have s': "s' = state_of (kthread_destroy cfg t s)" using ret by simp
  note fr = kthread_destroy_frame [OF pre, of cfg]
  have q: "kt_qlink (kthread_mem s' x) = kt_qlink (kthread_mem s x)" for x
  proof (cases "list_link_is_linked (kt_plink (kthread_mem s t))")
    case True
    then have n: "\<not> is_qlink (l_next (rd ?s1 (KtPlink t)))" "\<not> is_qlink (l_prev (rd ?s1 (KtPlink t)))"
      using wf by simp_all
    have "rd (list_remove (KtPlink t) ?s1) (KtQlink x) = rd ?s1 (KtQlink x)"
      using n by (intro list_remove_rd_other) (simp_all del: rd.simps add: is_qlink_neq)
    then show ?thesis
      using True by (simp add: s' kthread_destroy_success [OF pre] slab_obj_free_fields)
  next
    case False
    then show ?thesis
      by (simp add: s' kthread_destroy_success [OF pre] slab_obj_free_fields)
  qed
  show ?thesis
    unfolding queue_inv_def
  proof
    fix x assume "x \<in> slab_live s'"
    then have "x \<in> slab_live s" by (simp add: s' fr)
    then have "queue_inv_thread (kthread_mem s x)" using inv by (simp add: queue_inv_def)
    then show "queue_inv_thread (kthread_mem s' x)"
      by (simp add: queue_inv_thread_def q) (simp add: s' fr)
  qed
qed

lemma kthread_exit_SwitchedAway:
  assumes "kthread_exit pte retval s = SwitchedAway s'"
  shows "kt_wchan (kthread_mem s (curthr s)) = NULL
       \<and> kt_qlink (kthread_mem s (curthr s)) = \<lparr>l_next = LNULL, l_prev = LNULL\<rparr>
       \<and> pte retval (s\<lparr>kthread_mem := (kthread_mem s)(curthr s :=
             (kthread_mem s (curthr s))\<lparr>kt_retval := retval, kt_state := KT_EXITED\<rparr>)\<rparr>)
           = SwitchedAway s'"
proof -
  let ?t = "curthr s"
  let ?s2 = "s\<lparr>kthread_mem := (kthread_mem s)(?t :=
             (kthread_mem s ?t)\<lparr>kt_retval := retval, kt_state := KT_EXITED\<rparr>)\<rparr>"
  have a: "kt_wchan (kthread_mem s ?t) = NULL \<and> l_next (kt_qlink (kthread_mem s ?t)) = LNULL
            \<and> l_prev (kt_qlink (kthread_mem s ?t)) = LNULL \<and> kt_proc (kthread_mem s ?t) = curproc s"
    using assms by (auto simp: kthread_exit_def kt_upd_def Let_def split: if_splits)
  then have "kthread_exit pte retval s
               = (case pte retval ?s2 of Returned u s3 \<Rightarrow> Halted PanicCalled s3
                  | Halted h s3 \<Rightarrow> Halted h s3 | SwitchedAway s3 \<Rightarrow> SwitchedAway s3)"
    by (simp add: kthread_exit_def kt_upd_def Let_def)
  then have "pte retval ?s2 = SwitchedAway s'"
    using assms by (cases "pte retval ?s2") simp_all
  moreover have "kt_qlink (kthread_mem s ?t) = \<lparr>l_next = LNULL, l_prev = LNULL\<rparr>"
    using a by (cases "kt_qlink (kthread_mem s ?t)") simp
  ultimately show ?thesis using a by simp
qed

lemma queue_inv_exit:
  assumes inv: "queue_inv s" and pte: "pte_keeps_inv pte"
    and sw: "kthread_exit pte retval s = SwitchedAway s'"
  shows "queue_inv s'"
proof -
  let ?t = "curthr s"
  let ?s2 = "s\<lparr>kthread_mem := (kthread_mem s)(?t :=
             (kthread_mem s ?t)\<lparr>kt_retval := retval, kt_state := KT_EXITED\<rparr>)\<rparr>"
  note e = kthread_exit_SwitchedAway [OF sw]
  have "queue_inv ?s2"
    unfolding queue_inv_def
  proof
    fix x assume "x \<in> slab_live ?s2"
    then have "queue_inv_thread (kthread_mem s x)" using inv by (simp add: queue_inv_def)
    then show "queue_inv_thread (kthread_mem ?s2 x)"
      using e by (simp add: queue_inv_thread_def list_link_is_linked_def sleeping_def)
  qed
  then show ?thesis using pte e unfolding pte_keeps_inv_def by blast
qed

lemma kthread_cancel_completes:
  assumes "completes (kthread_cancel pte kthr retval s) = Some s'"
  shows "(kthr = curthr s \<and> kthread_exit pte retval s = SwitchedAway s')
       \<or> (kthr \<noteq> curthr s \<and> s' = sched_cancel kthr (kt_upd kthr (\<lambda>k. k\<lparr>kt_retval := retval\<rparr>) s))"
proof (cases "kthr = NULL")
  case True
  then show ?thesis using assms by (simp add: kthread_cancel_def)
next
  case n: False
  show ?thesis
  proof (cases "curthr s = kthr")
    case True
    then show ?thesis
      using assms n by (cases "kthread_exit pte retval s") (auto simp: kthread_cancel_def)
  next
    case False
    then show ?thesis using assms n by (auto simp: kthread_cancel_def Let_def)
  qed
qed

lemma queue_inv_sched_cancel:
  assumes inv: "queue_inv s"
    and wf: "kt_state (kthread_mem s kthr) = KT_SLEEP_CANCELLABLE \<longrightarrow> qlink_wf s kthr"
  shows "queue_inv (sched_cancel kthr (kt_upd kthr (\<lambda>k. k\<lparr>kt_retval := retval\<rparr>) s))"
proof (cases "kt_state (kthread_mem s kthr) = KT_SLEEP_CANCELLABLE")
  case False
  then have "sched_cancel kthr (kt_upd kthr (\<lambda>k. k\<lparr>kt_retval := retval\<rparr>) s)
               = s\<lparr>kthread_mem := (kthread_mem s)
                    (kthr := (kthread_mem s kthr)\<lparr>kt_retval := retval, kt_cancelled := 1\<rparr>)\<rparr>"
    by (simp add: sched_cancel_def kt_upd_def)
  then show ?thesis using inv by (simp add: queue_inv_def queue_inv_thread_def)
next
  case True
  let ?s1 = "kt_upd kthr (\<lambda>k. k\<lparr>kt_cancelled := 1\<rparr>) (kt_upd kthr (\<lambda>k. k\<lparr>kt_retval := retval\<rparr>) s)"
  let ?s2 = "list_remove (KtQlink kthr) ?s1"
  let ?s' = "kt_upd kthr (\<lambda>k. k\<lparr>kt_state := KT_RUN\<rparr>) (kt_upd kthr (\<lambda>k. k\<lparr>kt_wchan := NULL\<rparr>) ?s2)"
  have s': "sched_cancel kthr (kt_upd kthr (\<lambda>k. k\<lparr>kt_retval := retval\<rparr>) s) = ?s'"
    using True by (simp add: sched_cancel_def Let_def kt_upd_mem)
  have rd1: "rd ?s1 r = rd s r" for r by (simp add: rd_kt_upd kt_upd_mem)
  have w: "qlink_wf s kthr" using wf True by simp
  have self: "kt_qlink (kthread_mem ?s' kthr) = \<lparr>l_next = LNULL, l_prev = LNULL\<rparr>"
    using list_remove_self [of "KtQlink kthr" ?s1] by (simp add: kt_upd_mem)
  have other: "list_link_is_linked (kt_qlink (kthread_mem ?s' x))
                 = list_link_is_linked (kt_qlink (kthread_mem s x))" if "x \<noteq> kthr" for x
  proof -
    have "list_link_is_linked (rd ?s2 (KtQlink x)) = list_link_is_linked (rd ?s1 (KtQlink x))"
      using w that unfolding qlink_wf_def
      by (intro list_remove_linked) (simp_all only: rd1, simp_all)
    then show ?thesis using that by (simp add: kt_upd_mem)
  qed
  have st: "kt_state (kthread_mem ?s' x) = kt_state (kthread_mem s x)"
           "kt_wchan (kthread_mem ?s' x) = kt_wchan (kthread_mem s x)" if "x \<noteq> kthr" for x
    using that by (simp_all add: kt_upd_mem list_remove_kthread)
  have live: "slab_live ?s' = slab_live s" by (simp add: kt_upd_fields list_remove_fields)
  have "queue_inv ?s'"
    unfolding queue_inv_def
  proof
    fix x assume "x \<in> slab_live ?s'"
    then have i: "queue_inv_thread (kthread_mem s x)" using inv live by (simp add: queue_inv_def)
    show "queue_inv_thread (kthread_mem ?s' x)"
    proof (cases "x = kthr")
      case True
      have "kt_state (kthread_mem ?s' kthr) = KT_RUN" "kt_wchan (kthread_mem ?s' kthr) = NULL"
        by (simp_all add: kt_upd_mem)
      then show ?thesis
        using True self by (simp add: queue_inv_thread_def list_link_is_linked_def sleeping_def)
    next
      case False
      then show ?thesis using i by (simp add: queue_inv_thread_def other st)
    qed
  qed
  then show ?thesis by (simp only: s')
qed

lemma kthread_create_not_away: "kthread_create cfg p func arg1 arg2 s \<noteq> SwitchedAway s'"
proof (cases "p = NULL \<or> slab_free s = [] \<or> hd (slab_free s) = NULL
           \<or> page_free s = [] \<or> hd (page_free s) = NULL")
  case True
  from kthread_create_halts [OF this, of cfg func arg1 arg2] show ?thesis by auto
next
  case False
  then obtain a as b bs where l: "slab_free s = a # as" "page_free s = b # bs"
    by (cases "slab_free s"; cases "page_free s") auto
  with False have nn: "p \<noteq> NULL" "a \<noteq> NULL" "b \<noteq> NULL" by simp_all
  show ?thesis
    by (simp add: kthread_create_success [OF nn(1) l(1) nn(2) l(2) nn(3)])
qed

lemma kthread_clone_not_away: "kthread_clone cfg thr s \<noteq> SwitchedAway s'"
proof (cases "kt_state (kthread_mem s thr) \<noteq> KT_RUN \<or> slab_free s = [] \<or> hd (slab_free s) = NULL
           \<or> page_free s = [] \<or> hd (page_free s) = NULL
           \<or> tl (page_free s) = [] \<or> hd (tl (page_free s)) = NULL")
  case True
  from kthread_clone_halts [OF this, of cfg] show ?thesis by auto
next
  case False
  then obtain a as b bs where l: "slab_free s = a # as" "page_free s = b # bs"
    by (cases "slab_free s"; cases "page_free s") auto
  with False obtain c cs where l2: "bs = c # cs" by (cases bs) auto
  from False l l2 have nn: "kt_state (kthread_mem s thr) = KT_RUN" "a \<noteq> NULL" "b \<noteq> NULL" "c \<noteq> NULL"
    by simp_all
  have pf: "page_free s = b # c # cs" using l l2 by simp
  show ?thesis
    by (simp add: kthread_clone_success [OF nn(1) l(1) nn(2) pf nn(3,4)])
qed

lemma kthread_destroy_not_away: "kthread_destroy cfg t s \<noteq> SwitchedAway s'"
  by (cases "t = NULL \<or> kt_kstack (kthread_mem s t) = NULL")
    (simp_all add: kthread_destroy_halts kthread_destroy_success)

text \<open>
  C8. Every operation of kthread.c keeps the queue invariant: if it holds of all live
  control blocks, the lists the step touches are well formed (\<open>op_wf\<close>), and the
  process layer's notification keeps the invariant, then it holds again in the state the
  step leaves behind, whether the call returned or the thread was switched away from.
\<close>

theorem queue_inv_preserved:
  assumes "queue_inv s" "op_wf s op" "pte_keeps_inv pte" "run_op cfg pte op s = Some s'"
  shows "queue_inv s'"
proof (cases op)
  case (Create p func arg1 arg2)
  then obtain t where "kthread_create cfg p func arg1 arg2 s = Returned t s'"
    using assms(4)
    by (cases "kthread_create cfg p func arg1 arg2 s") (simp_all add: kthread_create_not_away)
  then show ?thesis using assms(1,2) Create by (auto intro: queue_inv_create)
next
  case (Destroy t)
  then obtain u where "kthread_destroy cfg t s = Returned u s'"
    using assms(4) by (cases "kthread_destroy cfg t s") (simp_all add: kthread_destroy_not_away)
  then show ?thesis using assms(1,2) Destroy by (auto intro: queue_inv_destroy)
next
  case (Exit retval)
  then have "kthread_exit pte retval s = SwitchedAway s'"
    using assms(4) by (cases "kthread_exit pte retval s") (simp_all add: kthread_exit_no_return)
  then show ?thesis using assms(1,3) by (auto intro: queue_inv_exit)
next
  case (Cancel kthr retval)
  then have "completes (kthread_cancel pte kthr retval s) = Some s'" using assms(4) by simp
  from kthread_cancel_completes [OF this] show ?thesis
  proof
    assume "kthr = curthr s \<and> kthread_exit pte retval s = SwitchedAway s'"
    then show ?thesis using assms(1,3) by (auto intro: queue_inv_exit)
  next
    assume "kthr \<noteq> curthr s \<and> s' = sched_cancel kthr (kt_upd kthr (\<lambda>k. k\<lparr>kt_retval := retval\<rparr>) s)"
    then show ?thesis using assms(1,2) Cancel by (simp add: queue_inv_sched_cancel)
  qed
next
  case (Clone thr)
  then obtain t where "kthread_clone cfg thr s = Returned t s'"
    using assms(4) by (cases "kthread_clone cfg thr s") (simp_all add: kthread_clone_not_away)
  then show ?thesis using assms(1,2) Clone by (auto intro: queue_inv_clone)
qed

lemma demo_queue_inv: "queue_inv demo_kstate"
  by (simp add: queue_inv_def queue_inv_thread_def demo_kstate_def demo_runner_def
      demo_sleeper_def list_link_is_linked_def sleeping_def)

lemma demo_cancel_wf: "op_wf demo_kstate (Cancel 0x2100 7)"
  by (simp add: qlink_wf_def demo_kstate_def demo_sleeper_def)

lemma proc_thread_exited_keeps_inv: "pte_keeps_inv proc_thread_exited"
  by (simp add: pte_keeps_inv_def proc_thread_exited_def)

lemma demo_cancel_run:
  "run_op cfg_56k proc_thread_exited (Cancel 0x2100 7) demo_kstate
     = Some (state_of (kthread_cancel proc_thread_exited 0x2100 7 demo_kstate))"
proof -
  have "curthr demo_kstate \<noteq> 0x2100" by (simp add: demo_kstate_def)
  then show ?thesis by (simp add: kthread_cancel_def Let_def)
qed

theorem queue_inv_preserved_witness:
  "queue_inv demo_kstate
   \<and> op_wf demo_kstate (Cancel 0x2100 7)
   \<and> pte_keeps_inv proc_thread_exited
   \<and> run_op cfg_56k proc_thread_exited (Cancel 0x2100 7) demo_kstate
       = Some (state_of (kthread_cancel proc_thread_exited 0x2100 7 demo_kstate))
   \<and> queue_inv (state_of (kthread_cancel proc_thread_exited 0x2100 7 demo_kstate))"
  using queue_inv_preserved [OF demo_queue_inv demo_cancel_wf proc_thread_exited_keeps_inv
      demo_cancel_run]
    demo_queue_inv demo_cancel_wf proc_thread_exited_keeps_inv demo_cancel_run
  by simp

end
